theory Spec2Isabelle
  imports Main "HOL-Library.Sublist"
begin

section \<open>Python values used by \<^verbatim>\<open>setup.py\<close>\<close>

text \<open>
  A Python \<^verbatim>\<open>str\<close> is a sequence of Unicode code points: \<^verbatim>\<open>len\<close> and slicing count
  code points, and three of the status glyphs the script prints lie outside ASCII. A string
  is therefore a list of code points; \<open>str\<close> embeds an ASCII literal.
\<close>

type_synonym pystr = "nat list"

definition str :: "string \<Rightarrow> pystr" where
  "str cs = map of_char cs"

text \<open>The glyphs of the source: U+2705, U+274C, and U+26A0 followed by U+FE0F.\<close>

definition check_mark :: pystr where
  "check_mark = [0x2705]"

definition cross_mark :: pystr where
  "cross_mark = [0x274C]"

definition warning_sign :: pystr where
  "warning_sign = [0x26A0, 0xFE0F]"

definition newline :: pystr where
  "newline = [0x0A]"

text \<open>Formatting an integer inside an f-string: decimal digits, a minus sign when negative.\<close>

fun str_of_nat :: "nat \<Rightarrow> pystr" where
  "str_of_nat n = (if n < 10 then [48 + n] else str_of_nat (n div 10) @ [48 + n mod 10])"

declare str_of_nat.simps [simp del]

definition str_of_int :: "int \<Rightarrow> pystr" where
  "str_of_int i = (if i < 0 then 45 # str_of_nat (nat (- i)) else str_of_nat (nat i))"

text \<open>\<^verbatim>\<open>sep.join(xs)\<close>.\<close>

fun join :: "pystr \<Rightarrow> pystr list \<Rightarrow> pystr" where
  "join sep [] = []"
| "join sep [x] = x"
| "join sep (x # y # ys) = x @ sep @ join sep (y # ys)"

text \<open>\<^verbatim>\<open>sub in s\<close> on strings: \<open>sub\<close> occurs in \<open>s\<close> as a contiguous run.\<close>

fun startswith :: "pystr \<Rightarrow> pystr \<Rightarrow> bool" where
  "startswith s [] = True"
| "startswith [] (p # ps) = False"
| "startswith (c # cs) (p # ps) = (c = p \<and> startswith cs ps)"

fun str_contains :: "pystr \<Rightarrow> pystr \<Rightarrow> bool" where
  "str_contains [] sub = (sub = [])"
| "str_contains (c # cs) sub = (startswith (c # cs) sub \<or> str_contains cs sub)"

text \<open>
  \<^verbatim>\<open>s.strip()\<close> removes leading and trailing whitespace; \<open>isspace\<close> lists the code points
  Python treats as whitespace.
\<close>

definition isspace :: "nat \<Rightarrow> bool" where
  "isspace c =
     ((0x09 \<le> c \<and> c \<le> 0x0D) \<or> (0x1C \<le> c \<and> c \<le> 0x20) \<or> c = 0x85 \<or> c = 0xA0 \<or>
      c = 0x1680 \<or> (0x2000 \<le> c \<and> c \<le> 0x200A) \<or> c = 0x2028 \<or> c = 0x2029 \<or>
      c = 0x202F \<or> c = 0x205F \<or> c = 0x3000)"

definition strip :: "pystr \<Rightarrow> pystr" where
  "strip s = rev (dropWhile isspace (rev (dropWhile isspace s)))"

text \<open>
  A string read from the environment or from the command line can hold lone surrogates
  (U+DC80 to U+DCFF stand for the bytes that do not decode), and such a string cannot be
  encoded as UTF-8. \<open>strict_text\<close> is the type of the strings without surrogates: what
  strict decoding yields and what \<^verbatim>\<open>str(e)\<close> gives for an exception, where file names and
  command lines appear escaped; \<open>chars\<close> reads such a text as a string.
\<close>

definition is_surrogate :: "nat \<Rightarrow> bool" where
  "is_surrogate c = (0xD800 \<le> c \<and> c \<le> 0xDFFF)"

definition encodable :: "pystr \<Rightarrow> bool" where
  "encodable t = list_all (\<lambda>c. \<not> is_surrogate c) t"

typedef strict_text = "{t :: pystr. encodable t}"
  morphisms chars Abs_strict_text
  by (rule exI [of _ "[]"]) (simp add: encodable_def)

definition text_of :: "string \<Rightarrow> strict_text" where
  "text_of cs = Abs_strict_text (str cs)"


section \<open>Exceptions, the outside world, and the state of a run\<close>

text \<open>
  The exception classes the script tells apart or meets, each with the text \<^verbatim>\<open>str(e)\<close>
  gives.
  \<open>KeyboardInterrupt\<close> derives from \<^verbatim>\<open>BaseException\<close> only; every other class derives
  from \<^verbatim>\<open>Exception\<close>. \<open>ImportError\<close> stands for the class and its subclasses.
\<close>

datatype exn =
    KeyboardInterrupt
  | ImportError strict_text
  | CalledProcessError strict_text
  | TimeoutExpired strict_text
  | OSError strict_text
  | UnicodeEncodeError strict_text
  | OtherException strict_text

fun is_Exception :: "exn \<Rightarrow> bool" where
  "is_Exception KeyboardInterrupt = False"
| "is_Exception _ = True"

fun is_KeyboardInterrupt :: "exn \<Rightarrow> bool" where
  "is_KeyboardInterrupt KeyboardInterrupt = True"
| "is_KeyboardInterrupt _ = False"

fun is_ImportError :: "exn \<Rightarrow> bool" where
  "is_ImportError (ImportError m) = True"
| "is_ImportError _ = False"

fun is_CalledProcessError :: "exn \<Rightarrow> bool" where
  "is_CalledProcessError (CalledProcessError m) = True"
| "is_CalledProcessError _ = False"

fun exn_text :: "exn \<Rightarrow> pystr" where
  "exn_text KeyboardInterrupt = []"
| "exn_text (ImportError m) = chars m"
| "exn_text (CalledProcessError m) = chars m"
| "exn_text (TimeoutExpired m) = chars m"
| "exn_text (OSError m) = chars m"
| "exn_text (UnicodeEncodeError m) = chars m"
| "exn_text (OtherException m) = chars m"

text \<open>
  What \<^verbatim>\<open>subprocess\<close> reports of a finished child process; with \<^verbatim>\<open>text=True\<close> the
  captured output is decoded strictly.
\<close>

record completed_process =
  returncode :: int
  stdout :: strict_text

text \<open>
  Everything one run of the script asks of its surroundings. Each question is asked at
  most once per run (the package names, import names and variable names of the static
  tables are pairwise distinct), so a function of the arguments records the answer the
  call gets when it is made. The calls that wait on the surroundings (an import, a child
  process, opening and writing a file) may raise, a \<open>KeyboardInterrupt\<close> included;
  reading a variable is taken to succeed.
  \<^item> \<open>version_info\<close>: \<^verbatim>\<open>sys.version_info\<close> as (major, minor, micro);
  \<^item> \<open>executable\<close>: \<^verbatim>\<open>sys.executable\<close>;
  \<^item> \<open>import_module\<close>: \<^verbatim>\<open>importlib.import_module(name)\<close>, \<open>None\<close> when the import works,
    otherwise the exception raised;
  \<^item> \<open>spawn\<close>: running a command line to completion, with an optional timeout in seconds:
    the finished process, or the exception raised by the call;
  \<^item> \<open>called_process_error_text\<close>: the text \<^verbatim>\<open>subprocess\<close> gives the
    \<^verbatim>\<open>CalledProcessError\<close> it builds from a command line and a return code;
  \<^item> \<open>encode_error_text\<close>: the text of the \<^verbatim>\<open>UnicodeEncodeError\<close> that encoding a string
    raises;
  \<^item> \<open>getenv\<close>: \<^verbatim>\<open>os.getenv(name)\<close>, \<open>None\<close> when the variable is unset; a value may
    hold lone surrogates;
  \<^item> \<open>open_w\<close>: \<^verbatim>\<open>open(path, "w")\<close>, \<open>None\<close> when the file opens;
  \<^item> \<open>write_text\<close>: writing and closing the opened file, \<open>None\<close> when all of the text is
    stored, otherwise the exception and how many characters reached the file.
\<close>

record world =
  version_info :: "int \<times> int \<times> int"
  executable :: pystr
  import_module :: "pystr \<Rightarrow> exn option"
  spawn :: "pystr list \<Rightarrow> nat option \<Rightarrow> exn + completed_process"
  called_process_error_text :: "pystr list \<Rightarrow> int \<Rightarrow> strict_text"
  encode_error_text :: "pystr \<Rightarrow> strict_text"
  getenv :: "pystr \<Rightarrow> pystr option"
  open_w :: "pystr \<Rightarrow> exn option"
  write_text :: "pystr \<Rightarrow> pystr \<Rightarrow> (exn \<times> nat) option"

text \<open>What a run does to its surroundings, in order.\<close>

datatype event =
    Print pystr
  | Import pystr
  | Subprocess "pystr list" "nat option"
  | Getenv pystr
  | OpenW pystr
  | WriteText pystr pystr

record state =
  trace :: "event list"
  files :: "pystr \<rightharpoonup> pystr"

datatype 'a outcome = Return 'a | Raise exn

type_synonym 'a io = "state \<Rightarrow> 'a outcome \<times> state"

definition emit :: "event \<Rightarrow> state \<Rightarrow> state" where
  "emit e s = s\<lparr>trace := trace s @ [e]\<rparr>"

definition emits :: "state \<Rightarrow> event list \<Rightarrow> state" where
  "emits s es = s\<lparr>trace := trace s @ es\<rparr>"

definition return :: "'a \<Rightarrow> 'a io" where
  "return x s = (Return x, s)"

definition raise :: "exn \<Rightarrow> 'a io" where
  "raise e s = (Raise e, s)"

definition bind :: "'a io \<Rightarrow> ('a \<Rightarrow> 'b io) \<Rightarrow> 'b io" where
  "bind m f s = (case m s of (Return x, s') \<Rightarrow> f x s' | (Raise e, s') \<Rightarrow> (Raise e, s'))"

text \<open>One statement after another; the first statement's value is dropped.\<close>

definition seq :: "'a io \<Rightarrow> 'b io \<Rightarrow> 'b io" where
  "seq m k = bind m (\<lambda>_. k)"

text \<open>\<^verbatim>\<open>try: body except C: handler\<close>, where \<open>catches\<close> decides membership in \<^verbatim>\<open>C\<close>.\<close>

definition try_except :: "'a io \<Rightarrow> (exn \<Rightarrow> bool) \<Rightarrow> (exn \<Rightarrow> 'a io) \<Rightarrow> 'a io" where
  "try_except body catches handler s =
     (case body s of
        (Return x, s') \<Rightarrow> (Return x, s')
      | (Raise e, s') \<Rightarrow> if catches e then handler e s' else (Raise e, s'))"

text \<open>\<^verbatim>\<open>for x in xs: body\<close>; an exception leaves the loop.\<close>

fun for_each :: "'a list \<Rightarrow> ('a \<Rightarrow> unit io) \<Rightarrow> unit io" where
  "for_each [] body = return ()"
| "for_each (x # xs) body = seq (body x) (for_each xs body)"

text \<open>
  \<^verbatim>\<open>print(t)\<close> on a standard output that accepts what is written to it and encodes it
  strictly as UTF-8, the script's own glyphs included: a string with a lone surrogate makes
  the call raise \<^verbatim>\<open>UnicodeEncodeError\<close> before anything of it is written.
\<close>

definition print :: "world \<Rightarrow> pystr \<Rightarrow> unit io" where
  "print w t s =
     (if encodable t
      then (Return (), emit (Print t) s)
      else (Raise (UnicodeEncodeError (encode_error_text w t)), s))"

definition import_module_io :: "world \<Rightarrow> pystr \<Rightarrow> unit io" where
  "import_module_io w name s =
     (case import_module w name of
        None \<Rightarrow> (Return (), emit (Import name) s)
      | Some e \<Rightarrow> (Raise e, emit (Import name) s))"

definition subprocess_run :: "world \<Rightarrow> pystr list \<Rightarrow> nat option \<Rightarrow> completed_process io" where
  "subprocess_run w cmd timeout s =
     (case spawn w cmd timeout of
        Inr p \<Rightarrow> (Return p, emit (Subprocess cmd timeout) s)
      | Inl e \<Rightarrow> (Raise e, emit (Subprocess cmd timeout) s))"

text \<open>
  \<^verbatim>\<open>subprocess.check_call(cmd)\<close>: waits for the command and raises \<^verbatim>\<open>CalledProcessError\<close>
  when its return code is not zero.
\<close>

definition check_call :: "world \<Rightarrow> pystr list \<Rightarrow> int io" where
  "check_call w cmd =
     bind (subprocess_run w cmd None) (\<lambda>p.
       if returncode p \<noteq> 0
       then raise (CalledProcessError (called_process_error_text w cmd (returncode p)))
       else return 0)"

definition getenv_io :: "world \<Rightarrow> pystr \<Rightarrow> pystr option io" where
  "getenv_io w name s = (Return (getenv w name), emit (Getenv name) s)"

text \<open>
  \<^verbatim>\<open>with open(path, "w") as f: f.write(text)\<close>. Opening truncates the file; a failed write
  leaves the part that reached it.
\<close>

definition write_file :: "world \<Rightarrow> pystr \<Rightarrow> pystr \<Rightarrow> unit io" where
  "write_file w path text s =
     (case open_w w path of
        Some e \<Rightarrow> (Raise e, emit (OpenW path) s)
      | None \<Rightarrow>
          (case write_text w path text of
             Some (e, n) \<Rightarrow>
               (Raise e, (emit (WriteText path text) (emit (OpenW path) s))
                           \<lparr>files := (files s)(path \<mapsto> take n text)\<rparr>)
           | None \<Rightarrow>
               (Return (), (emit (WriteText path text) (emit (OpenW path) s))
                             \<lparr>files := (files s)(path \<mapsto> text)\<rparr>)))"


section \<open>The functions of \<^verbatim>\<open>setup.py\<close>\<close>

definition print_header :: "world \<Rightarrow> pystr \<Rightarrow> unit io" where
  "print_header w text =
     seq (print w (newline @ replicate 60 (of_char CHR ''='')))
    (seq (print w (str ''  '' @ text))
         (print w (replicate 60 (of_char CHR ''=''))))"

definition print_step :: "world \<Rightarrow> int \<Rightarrow> pystr \<Rightarrow> unit io" where
  "print_step w step text =
     seq (print w (newline @ str_of_int step @ str ''. '' @ text))
         (print w (replicate 40 (of_char CHR ''-'')))"

definition check_python_version :: "world \<Rightarrow> bool io" where
  "check_python_version w =
     (case version_info w of (major, minor, micro) \<Rightarrow>
        let required_major = 3; required_minor = 8 in
        seq (print w (str ''Python version: '' @ str_of_int major @ str ''.'' @ str_of_int minor
                    @ str ''.'' @ str_of_int micro))
            (if major \<ge> required_major \<and> minor \<ge> required_minor
             then seq (print w (check_mark @ str '' Python version is compatible'')) (return True)
             else seq (print w (cross_mark @ str '' Python '' @ str_of_int required_major @ str ''.''
                              @ str_of_int required_minor @ str ''+ is required''))
                      (return False)))"

definition pip_command :: "world \<Rightarrow> pystr \<Rightarrow> pystr list" where
  "pip_command w package = [executable w, str ''-m'', str ''pip'', str ''install'', package]"

definition install_package :: "world \<Rightarrow> pystr \<Rightarrow> bool io" where
  "install_package w package =
     try_except
       (seq (check_call w (pip_command w package)) (return True))
       is_CalledProcessError
       (\<lambda>e. return False)"

definition required_packages :: "(pystr \<times> pystr) list" where
  "required_packages =
     [(str ''streamlit'', str ''streamlit''),
      (str ''google-generativeai'', str ''google.generativeai''),
      (str ''langchain'', str ''langchain''),
      (str ''langchain-community'', str ''langchain_community''),
      (str ''langchain-core'', str ''langchain_core''),
      (str ''langchain-qdrant'', str ''langchain_qdrant''),
      (str ''qdrant-client'', str ''qdrant_client''),
      (str ''pypdf'', str ''pypdf''),
      (str ''beautifulsoup4'', str ''bs4''),
      (str ''agno'', str ''agno''),
      (str ''requests'', str ''requests''),
      (str ''numpy'', str ''numpy''),
      (str ''python-dotenv'', str ''dotenv'')]"

text \<open>
  The loop of \<^verbatim>\<open>check_and_install_dependencies\<close> over the packages still to visit;
  \<open>results\<close> is the list the loop appends to.
\<close>

fun dependency_loop ::
  "world \<Rightarrow> (pystr \<times> pystr) list \<Rightarrow> (pystr \<times> bool) list \<Rightarrow> (pystr \<times> bool) list io" where
  "dependency_loop w [] results = return results"
| "dependency_loop w ((package_name, import_name) # rest) results =
     bind
       (try_except
          (seq (import_module_io w import_name)
          (seq (print w (check_mark @ str '' '' @ package_name @ str '' is installed''))
               (return (results @ [(package_name, True)]))))
          is_ImportError
          (\<lambda>e.
            seq (print w (cross_mark @ str '' '' @ package_name @ str '' is not installed. Installing...''))
           (bind (install_package w package_name) (\<lambda>installed.
              if installed
              then seq (print w (check_mark @ str '' Successfully installed '' @ package_name))
                       (return (results @ [(package_name, True)]))
              else seq (print w (cross_mark @ str '' Failed to install '' @ package_name))
                       (return (results @ [(package_name, False)]))))))
       (\<lambda>results'. dependency_loop w rest results')"

definition check_and_install_dependencies :: "world \<Rightarrow> (pystr \<times> bool) list io" where
  "check_and_install_dependencies w = dependency_loop w required_packages []"

definition env_vars :: "(pystr \<times> pystr) list" where
  "env_vars =
     [(str ''GOOGLE_API_KEY'', str ''Google AI API Key''),
      (str ''QDRANT_API_KEY'', str ''Qdrant API Key''),
      (str ''QDRANT_URL'', str ''Qdrant URL''),
      (str ''EXA_API_KEY'', str ''Exa AI API Key (Optional)'')]"

text \<open>The truth value of \<^verbatim>\<open>os.getenv\<close>'s result: \<^verbatim>\<open>None\<close> and the empty string are false.\<close>

fun truthy :: "pystr option \<Rightarrow> bool" where
  "truthy None = False"
| "truthy (Some v) = (v \<noteq> [])"

definition check_environment_variable :: "world \<Rightarrow> pystr \<times> pystr \<Rightarrow> unit io" where
  "check_environment_variable w = (\<lambda>(var_name, description).
     bind (getenv_io w var_name) (\<lambda>val.
       if truthy val then
         let v = the val;
             masked_value = (if length v > 8 then take 8 v @ str ''...'' else v)
         in print w (check_mark @ str '' '' @ description @ str '': '' @ masked_value)
       else
         let optional = str_contains description (str ''(Optional)'');
             status = (if optional then warning_sign else cross_mark)
         in print w (status @ str '' '' @ description @ str '': Not set'')))"

definition check_environment_variables :: "world \<Rightarrow> unit io" where
  "check_environment_variables w = for_each env_vars (check_environment_variable w)"

definition streamlit_command :: "world \<Rightarrow> pystr list" where
  "streamlit_command w = [executable w, str ''-m'', str ''streamlit'', str ''version'']"

definition test_streamlit :: "world \<Rightarrow> bool io" where
  "test_streamlit w =
     try_except
       (bind (subprocess_run w (streamlit_command w) (Some 10)) (\<lambda>result.
          if returncode result = 0
          then seq (print w (check_mark @ str '' Streamlit is working correctly''))
              (seq (print w (str ''   Version: '' @ strip (chars (stdout result))))
                   (return True))
          else seq (print w (cross_mark @ str '' Streamlit test failed'')) (return False)))
       is_Exception
       (\<lambda>e. seq (print w (cross_mark @ str '' Streamlit test error: '' @ exn_text e)) (return False))"

definition env_template_lines :: "string list" where
  "env_template_lines =
     [''# API Keys for Agentic RAG Application'',
      ''# Copy this file to .env and fill in your actual API keys'',
      '''',
      ''# Required: Google AI API Key'',
      ''# Get from: https://aistudio.google.com/'',
      ''GOOGLE_API_KEY=your_google_api_key_here'',
      '''',
      ''# Required: Qdrant Vector Database'',
      ''# Get from: https://cloud.qdrant.io/'',
      ''QDRANT_API_KEY=your_qdrant_api_key_here'',
      ''QDRANT_URL=https://your-cluster.cloud.qdrant.io:6333'',
      '''',
      ''# Optional: Exa AI for web search'',
      ''# Get from: https://exa.ai/'',
      ''EXA_API_KEY=your_exa_api_key_here'']"

text \<open>The triple-quoted literal: each of its lines, the last one included, ends in a newline.\<close>

definition env_template :: pystr where
  "env_template = concat (map (\<lambda>l. str l @ newline) env_template_lines)"

definition env_template_path :: pystr where
  "env_template_path = str ''.env.template''"

definition create_env_template :: "world \<Rightarrow> bool io" where
  "create_env_template w =
     try_except
       (seq (write_file w env_template_path env_template)
       (seq (print w (check_mark @ str '' Created .env.template file''))
       (seq (print w (str ''   Copy this to .env and fill in your API keys''))
            (return True))))
       is_Exception
       (\<lambda>e. seq (print w (cross_mark @ str '' Failed to create .env.template: '' @ exn_text e))
                 (return False))"

text \<open>The list comprehension and the summary of lines 166 to 173.\<close>

definition failed_packages_of :: "(pystr \<times> bool) list \<Rightarrow> pystr list" where
  "failed_packages_of results = map fst (filter (\<lambda>(pkg, success). \<not> success) results)"

definition main :: "world \<Rightarrow> bool io" where
  "main w =
     seq (print_header w (str ''Agentic RAG Setup and Environment Check''))
    (seq (print_step w 1 (str ''Checking Python Version''))
    (bind (check_python_version w) (\<lambda>compatible.
       if \<not> compatible
       then seq (print w (newline @ cross_mark @ str '' Setup failed: Incompatible Python version''))
                (return False)
       else
         seq (print_step w 2 (str ''Checking and Installing Dependencies''))
        (bind (check_and_install_dependencies w) (\<lambda>results.
           let failed_packages = failed_packages_of results in
           seq (if failed_packages \<noteq> []
                then seq (print w (newline @ cross_mark @ str '' Failed to install packages: ''
                                 @ join (str '', '') failed_packages))
                    (seq (print w (str ''Please install them manually using:''))
                         (for_each failed_packages (\<lambda>pkg. print w (str ''   pip install '' @ pkg))))
                else print w (newline @ check_mark @ str '' All dependencies are installed''))
          (seq (print_step w 3 (str ''Testing Streamlit''))
          (seq (test_streamlit w)
          (seq (print_step w 4 (str ''Checking Environment Variables''))
          (seq (check_environment_variables w)
          (seq (print_step w 5 (str ''Creating Environment Template''))
          (seq (create_env_template w)
          (seq (print_header w (str ''Setup Complete!''))
          (seq (print w (newline @ str ''Next steps:''))
          (seq (print w (str ''1. Copy .env.template to .env''))
          (seq (print w (str ''2. Fill in your API keys in the .env file''))
          (seq (print w (str ''3. See API_KEYS_SETUP.md for detailed instructions on getting API keys''))
          (seq (print w (str ''4. Run the application with: streamlit run main.py''))
          (seq (print w (newline @ str ''For help with API keys, see: API_KEYS_SETUP.md''))
               (return True)))))))))))))))))))"

text \<open>
  The block under \<^verbatim>\<open>if __name__ == "__main__"\<close>: the exit status of the process and the
  state it leaves. \<^verbatim>\<open>sys.exit(1)\<close> inside a handler ends the process with status 1; falling
  off the end of the script ends it with status 0.
\<close>

definition script :: "world \<Rightarrow> state \<Rightarrow> int \<times> state" where
  "script w s =
     (case main w s of
        (Return r, s') \<Rightarrow> (0, s')
      | (Raise e, s') \<Rightarrow>
          if is_KeyboardInterrupt e
          then (1, snd (print w (newline @ newline @ cross_mark @ str '' Setup interrupted by user'') s'))
          else (1, snd (print w (newline @ newline @ cross_mark @ str '' Setup failed with error: ''
                                 @ exn_text e) s')))"



section \<open>Concrete surroundings\<close>

text \<open>
  A run on Python 3.11.4 where every import works, every child process exits with code 0,
  two of the four variables are set (one to 20 characters, one to 5) and the template file
  can be written; and the state before the script has done anything.
\<close>

definition example_world :: world where
  "example_world =
     \<lparr>version_info = (3, 11, 4),
      executable = str ''/usr/bin/python3'',
      import_module = (\<lambda>name. None),
      spawn = (\<lambda>cmd timeout.
        Inr \<lparr>returncode = 0, stdout = text_of (''Streamlit, version 1.30.0'' @ [CHR 0x0A])\<rparr>),
      called_process_error_text = (\<lambda>cmd rc. text_of ''non-zero exit status''),
      encode_error_text = (\<lambda>t. text_of ''surrogates not allowed''),
      getenv = (\<lambda>name. if name = str ''GOOGLE_API_KEY'' then Some (str ''AIzaSy0123456789abcd'')
                       else if name = str ''QDRANT_API_KEY'' then Some (str ''abc12'')
                       else None),
      open_w = (\<lambda>path. None),
      write_text = (\<lambda>path text. None)\<rparr>"

definition initial_state :: state where
  "initial_state = \<lparr>trace = [], files = Map.empty\<rparr>"


section \<open>Vocabulary for the statements\<close>

text \<open>A computation only ever adds to the trace.\<close>

definition appends :: "'a io \<Rightarrow> bool" where
  "appends m = (\<forall>s. prefix (trace s) (trace (snd (m s))))"

fun is_Print :: "event \<Rightarrow> bool" where
  "is_Print (Print t) = True"
| "is_Print _ = False"

fun is_Import :: "event \<Rightarrow> bool" where
  "is_Import (Import name) = True"
| "is_Import _ = False"

fun is_Subprocess :: "event \<Rightarrow> bool" where
  "is_Subprocess (Subprocess cmd timeout) = True"
| "is_Subprocess _ = False"

text \<open>The \<^verbatim>\<open>pip install\<close> child process of a package ran to its end and exited with code 0.\<close>

definition pip_exit_zero :: "world \<Rightarrow> pystr \<Rightarrow> bool" where
  "pip_exit_zero w package =
     (case spawn w (pip_command w package) None of
        Inr p \<Rightarrow> returncode p = 0
      | Inl e \<Rightarrow> False)"

text \<open>
  What one round of the dependency loop leaves in the trace when it does not raise: the
  probe and its status line, and, after a failed probe, the announcement, the
  \<^verbatim>\<open>pip install\<close> call and its status line.
\<close>

definition package_events :: "world \<Rightarrow> pystr \<times> pystr \<Rightarrow> event list" where
  "package_events w = (\<lambda>(package_name, import_name).
     if import_module w import_name = None
     then [Import import_name,
           Print (check_mark @ str '' '' @ package_name @ str '' is installed'')]
     else [Import import_name,
           Print (cross_mark @ str '' '' @ package_name @ str '' is not installed. Installing...''),
           Subprocess (pip_command w package_name) None,
           Print (if pip_exit_zero w package_name
                  then check_mark @ str '' Successfully installed '' @ package_name
                  else cross_mark @ str '' Failed to install '' @ package_name)])"

text \<open>The output of \<open>main\<close> up to and including the heading of step 2.\<close>

definition opening_lines :: "world \<Rightarrow> pystr list" where
  "opening_lines w =
     (case version_info w of (major, minor, micro) \<Rightarrow>
        [newline @ replicate 60 (of_char CHR ''=''),
         str ''  '' @ str ''Agentic RAG Setup and Environment Check'',
         replicate 60 (of_char CHR ''=''),
         newline @ str_of_int 1 @ str ''. '' @ str ''Checking Python Version'',
         replicate 40 (of_char CHR ''-''),
         str ''Python version: '' @ str_of_int major @ str ''.'' @ str_of_int minor
           @ str ''.'' @ str_of_int micro,
         check_mark @ str '' Python version is compatible'',
         newline @ str_of_int 2 @ str ''. '' @ str ''Checking and Installing Dependencies'',
         replicate 40 (of_char CHR ''-'')])"



text \<open>
  The part of \<open>main\<close> that follows the dependency summary: steps 3 to 5 and the closing
  instructions.
\<close>

definition remaining_stages :: "world \<Rightarrow> bool io" where
  "remaining_stages w =
     seq (print_step w 3 (str ''Testing Streamlit''))
    (seq (test_streamlit w)
    (seq (print_step w 4 (str ''Checking Environment Variables''))
    (seq (check_environment_variables w)
    (seq (print_step w 5 (str ''Creating Environment Template''))
    (seq (create_env_template w)
    (seq (print_header w (str ''Setup Complete!''))
    (seq (print w (newline @ str ''Next steps:''))
    (seq (print w (str ''1. Copy .env.template to .env''))
    (seq (print w (str ''2. Fill in your API keys in the .env file''))
    (seq (print w (str ''3. See API_KEYS_SETUP.md for detailed instructions on getting API keys''))
    (seq (print w (str ''4. Run the application with: streamlit run main.py''))
    (seq (print w (newline @ str ''For help with API keys, see: API_KEYS_SETUP.md''))
         (return True)))))))))))))"

text \<open>
  A run in which two imports fail: \<^verbatim>\<open>pip install beautifulsoup4\<close> then exits with code 1,
  every other child process with code 0.
\<close>

definition example_world_missing :: world where
  "example_world_missing =
     example_world
       \<lparr>import_module := (\<lambda>name.
          if name = str ''bs4'' then Some (ImportError (text_of ''No module named bs4''))
          else if name = str ''numpy'' then Some (ImportError (text_of ''No module named numpy''))
          else None),
        spawn := (\<lambda>cmd timeout.
          if cmd = [str ''/usr/bin/python3'', str ''-m'', str ''pip'', str ''install'', str ''beautifulsoup4'']
          then Inr \<lparr>returncode = 1, stdout = text_of []\<rparr>
          else Inr \<lparr>returncode = 0, stdout = text_of (''Streamlit, version 1.30.0'' @ [CHR 0x0A])\<rparr>)\<rparr>"


text \<open>
  A run in which only the import of \<^verbatim>\<open>bs4\<close> fails, and \<^verbatim>\<open>pip install beautifulsoup4\<close>
  exits with code 1.
\<close>

definition example_world_unresolvable :: world where
  "example_world_unresolvable =
     example_world_missing
       \<lparr>import_module := (\<lambda>name.
          if name = str ''bs4'' then Some (ImportError (text_of ''No module named bs4'')) else None)\<rparr>"


text \<open>
  The lines of a text in groups, a group ending at each empty line; a line that assigns a
  value; a line that says where to get one.
\<close>

fun paragraphs :: "string list \<Rightarrow> string list list" where
  "paragraphs [] = [[]]"
| "paragraphs (l # ls) =
     (case paragraphs ls of
        [] \<Rightarrow> [[l]]
      | g # gs \<Rightarrow> if l = [] then [] # g # gs else (l # g) # gs)"

definition is_assignment :: "string \<Rightarrow> bool" where
  "is_assignment l = (l \<noteq> [] \<and> hd l \<noteq> CHR ''#'' \<and> CHR ''='' \<in> set l)"

definition is_provisioning_comment :: "string \<Rightarrow> bool" where
  "is_provisioning_comment l = (take 12 l = ''# Get from: '')"

text \<open>
  Runs in which the launcher probe is interrupted from the keyboard, times out, or exits
  with code 1; and runs in which the template file cannot be opened, or the write fails
  after 40 characters.
\<close>

definition example_world_interrupted :: world where
  "example_world_interrupted =
     example_world\<lparr>spawn := (\<lambda>cmd timeout. Inl KeyboardInterrupt)\<rparr>"

definition example_world_timeout :: world where
  "example_world_timeout =
     example_world\<lparr>spawn := (\<lambda>cmd timeout. Inl (TimeoutExpired (text_of ''timed out after 10 seconds'')))\<rparr>"

definition example_world_launcher_fails :: world where
  "example_world_launcher_fails =
     example_world\<lparr>spawn := (\<lambda>cmd timeout. Inr \<lparr>returncode = 1, stdout = text_of []\<rparr>)\<rparr>"

definition example_world_read_only :: world where
  "example_world_read_only =
     example_world\<lparr>open_w := (\<lambda>path. Some (OSError (text_of ''Permission denied'')))\<rparr>"

definition example_world_disk_full :: world where
  "example_world_disk_full =
     example_world\<lparr>write_text := (\<lambda>path text. Some (OSError (text_of ''No space left on device''), 40))\<rparr>"


text \<open>
  A run in which \<^verbatim>\<open>QDRANT_API_KEY\<close> is set to three characters, the second of them the
  lone surrogate U+DCFF that stands for the byte FF.
\<close>

definition example_world_undecodable :: world where
  "example_world_undecodable =
     example_world\<lparr>getenv := (getenv example_world)(str ''QDRANT_API_KEY'' \<mapsto> [0x61, 0xDCFF, 0x62])\<rparr>"

section \<open>Strings that can be encoded\<close>

lemma encodable_Nil [simp]: "encodable []"
  by (simp add: encodable_def)

lemma encodable_Cons [simp]: "encodable (c # cs) \<longleftrightarrow> \<not> is_surrogate c \<and> encodable cs"
  by (simp add: encodable_def)

lemma encodable_append [simp]: "encodable (a @ b) \<longleftrightarrow> encodable a \<and> encodable b"
  by (simp add: encodable_def)

lemma encodable_replicate [simp]: "encodable (replicate n c) \<longleftrightarrow> n = 0 \<or> \<not> is_surrogate c"
  by (induction n) auto

lemma encodable_take: "encodable t \<Longrightarrow> encodable (take n t)"
  by (simp add: encodable_def list_all_iff) (meson in_set_takeD)

lemma encodable_dropWhile: "encodable t \<Longrightarrow> encodable (dropWhile P t)"
  by (simp add: encodable_def list_all_iff) (meson in_set_dropD set_dropWhileD)

lemma encodable_rev [simp]: "encodable (rev t) \<longleftrightarrow> encodable t"
  by (simp add: encodable_def list_all_iff)

lemma encodable_strip: "encodable t \<Longrightarrow> encodable (strip t)"
  by (simp add: strip_def encodable_dropWhile)

lemma not_surrogate_small [simp]: "c < 0xD800 \<Longrightarrow> \<not> is_surrogate c"
  by (simp add: is_surrogate_def)

lemma of_char_less_256: "(of_char c :: nat) < 256"
  by (metis char_of_char mod_less_divisor of_char_of zero_less_numeral)

lemma not_surrogate_of_char [simp]: "\<not> is_surrogate (of_char c)"
  unfolding is_surrogate_def using of_char_less_256 [of c] by linarith

lemma encodable_str [simp]: "encodable (str cs)"
  by (induction cs) (simp_all add: str_def)

lemma encodable_glyphs [simp]:
  "encodable check_mark" "encodable cross_mark" "encodable warning_sign" "encodable newline"
  by (simp_all add: check_mark_def cross_mark_def warning_sign_def newline_def is_surrogate_def)

lemma encodable_str_of_nat [simp]: "encodable (str_of_nat n)"
proof (induction n rule: str_of_nat.induct)
  case (1 n)
  show ?case
  proof (cases "n < 10")
    case True
    then show ?thesis by (subst str_of_nat.simps) simp
  next
    case False
    have "n mod 10 < 10" by simp
    then have "48 + n mod 10 < 0xD800" by linarith
    with False 1 show ?thesis by (subst str_of_nat.simps) simp
  qed
qed

lemma encodable_str_of_int [simp]: "encodable (str_of_int i)"
  by (simp add: str_of_int_def)

lemma encodable_chars [simp]: "encodable (chars m)"
  using chars [of m] by simp

lemma encodable_exn_text [simp]: "encodable (exn_text e)"
  by (cases e) simp_all

lemma chars_text_of [simp]: "chars (text_of cs) = str cs"
  by (simp add: text_of_def Abs_strict_text_inverse)

lemma encodable_join:
  "encodable sep \<Longrightarrow> list_all encodable xs \<Longrightarrow> encodable (join sep xs)"
  by (induction sep xs rule: join.induct) simp_all

section \<open>Sequencing lemmas\<close>

lemma emit_eq_emits: "emit e s = emits s [e]"
  by (simp add: emit_def emits_def)

lemma emits_Nil [simp]: "emits s [] = s"
  by (simp add: emits_def)

lemma emits_emits [simp]: "emits (emits s xs) ys = emits s (xs @ ys)"
  by (simp add: emits_def)

lemma trace_emits [simp]: "trace (emits s es) = trace s @ es"
  by (simp add: emits_def)

lemma files_emits [simp]: "files (emits s es) = files s"
  by (simp add: emits_def)

lemma return_apply [simp]: "return x s = (Return x, s)"
  by (simp add: return_def)

lemma raise_apply [simp]: "raise e s = (Raise e, s)"
  by (simp add: raise_def)

lemma print_apply [simp]: "encodable t \<Longrightarrow> print w t s = (Return (), emits s [Print t])"
  by (simp add: print_def emit_eq_emits)

lemma print_raises:
  "\<not> encodable t \<Longrightarrow> print w t s = (Raise (UnicodeEncodeError (encode_error_text w t)), s)"
  by (simp add: print_def)

lemma seq_Return: "m s = (Return x, s') \<Longrightarrow> seq m k s = k s'"
  by (simp add: seq_def bind_def)

lemma seq_Raise: "m s = (Raise e, s') \<Longrightarrow> seq m k s = (Raise e, s')"
  by (simp add: seq_def bind_def)

lemma seq_print [simp]: "encodable t \<Longrightarrow> seq (print w t) k s = k (emits s [Print t])"
  by (simp add: seq_def bind_def)

lemma seq_print_header [simp]:
  "encodable text \<Longrightarrow>
   seq (print_header w text) k s =
     k (emits s [Print (newline @ replicate 60 (of_char CHR ''='')), Print (str ''  '' @ text),
                 Print (replicate 60 (of_char CHR ''=''))])"
  by (simp add: seq_def bind_def print_header_def)

lemma seq_print_step [simp]:
  "encodable text \<Longrightarrow>
   seq (print_step w step text) k s =
     k (emits s [Print (newline @ str_of_int step @ str ''. '' @ text),
                 Print (replicate 40 (of_char CHR ''-''))])"
  by (simp add: seq_def bind_def print_step_def)


section \<open>The version gate\<close>

lemma check_python_version_apply:
  "check_python_version w s =
     (case version_info w of (major, minor, micro) \<Rightarrow>
        (Return (3 \<le> major \<and> 8 \<le> minor),
         emits s [Print (str ''Python version: '' @ str_of_int major @ str ''.'' @ str_of_int minor
                         @ str ''.'' @ str_of_int micro),
                  if 3 \<le> major \<and> 8 \<le> minor
                  then Print (check_mark @ str '' Python version is compatible'')
                  else Print (cross_mark @ str '' Python '' @ str_of_int 3 @ str ''.''
                              @ str_of_int 8 @ str ''+ is required'')]))"
  by (simp add: check_python_version_def split: prod.splits)

text \<open>
  C1. The script runs only on an interpreter whose major version is at least 3 (its
  f-strings and annotations do not compile on an older one). On every such version whose
  minor component is at least 8, \<open>check_python_version\<close> returns \<open>True\<close> whatever the major
  component is: the test on it is \<open>major \<ge> 3\<close>, not \<open>major = 3\<close>, so 4.8 passes. On every
  version whose minor component is below 8 it returns \<open>False\<close>, whatever the major
  component, so 4.7 is rejected.
\<close>

theorem check_python_version_minor_decides:
  assumes "version_info w = (major, minor, micro)"
  shows "(3 \<le> major \<and> 8 \<le> minor \<longrightarrow> fst (check_python_version w s) = Return True)
     \<and> (minor < 8 \<longrightarrow> fst (check_python_version w s) = Return False)
     \<and> (3 \<le> major \<longrightarrow> fst (check_python_version w s) = Return (8 \<le> minor))"
  using assms by (auto simp: check_python_version_apply)

theorem check_python_version_minor_decides_witness:
  "fst (check_python_version (example_world\<lparr>version_info := (3, 8, 0)\<rparr>) initial_state) = Return True
   \<and> fst (check_python_version (example_world\<lparr>version_info := (4, 8, 0)\<rparr>) initial_state) = Return True
   \<and> fst (check_python_version (example_world\<lparr>version_info := (3, 7, 17)\<rparr>) initial_state) = Return False
   \<and> fst (check_python_version (example_world\<lparr>version_info := (4, 7, 9)\<rparr>) initial_state) = Return False"
proof -
  have a: "version_info (example_world\<lparr>version_info := (3, 8, 0)\<rparr>) = (3, 8, 0)"
    and b: "version_info (example_world\<lparr>version_info := (4, 8, 0)\<rparr>) = (4, 8, 0)"
    and c: "version_info (example_world\<lparr>version_info := (3, 7, 17)\<rparr>) = (3, 7, 17)"
    and d: "version_info (example_world\<lparr>version_info := (4, 7, 9)\<rparr>) = (4, 7, 9)"
    by simp_all
  from check_python_version_minor_decides [OF a, of initial_state]
    check_python_version_minor_decides [OF b, of initial_state]
    check_python_version_minor_decides [OF c, of initial_state]
    check_python_version_minor_decides [OF d, of initial_state]
  show ?thesis by simp
qed


section \<open>Every computation of the script only adds to the trace\<close>

lemma appendsI: "(\<And>s. prefix (trace s) (trace (snd (m s)))) \<Longrightarrow> appends m"
  by (simp add: appends_def)

lemma appendsD: "appends m \<Longrightarrow> prefix (trace s) (trace (snd (m s)))"
  by (simp add: appends_def)

lemma appends_after: "appends m \<Longrightarrow> prefix (trace s @ es) (trace (snd (m (emits s es))))"
  using appendsD [of m "emits s es"] by simp

lemma appends_return [intro!, simp]: "appends (return x)"
  by (simp add: appends_def)

lemma appends_raise [intro!, simp]: "appends (raise e)"
  by (simp add: appends_def)

lemma appends_print [intro!, simp]: "appends (print w t)"
  by (simp add: appends_def print_def emit_eq_emits)

lemma appends_bind [intro!]:
  assumes "appends m" and "\<And>x. appends (f x)"
  shows "appends (bind m f)"
proof (rule appendsI)
  fix s
  obtain r s' where ms: "m s = (r, s')" by (cases "m s")
  have p1: "prefix (trace s) (trace s')" using appendsD [OF assms(1), of s] ms by simp
  show "prefix (trace s) (trace (snd (bind m f s)))"
  proof (cases r)
    case (Return x)
    have "prefix (trace s') (trace (snd (f x s')))" using appendsD [OF assms(2)] .
    with p1 show ?thesis using ms Return by (auto simp: bind_def intro: prefix_order.trans)
  next
    case (Raise e)
    with p1 ms show ?thesis by (simp add: bind_def)
  qed
qed

lemma appends_seq [intro!]: "appends m \<Longrightarrow> appends k \<Longrightarrow> appends (seq m k)"
  by (auto simp: seq_def)

lemma appends_try_except [intro!]:
  assumes "appends body" and "\<And>e. appends (handler e)"
  shows "appends (try_except body catches handler)"
proof (rule appendsI)
  fix s
  obtain r s' where ms: "body s = (r, s')" by (cases "body s")
  have p1: "prefix (trace s) (trace s')" using appendsD [OF assms(1), of s] ms by simp
  show "prefix (trace s) (trace (snd (try_except body catches handler s)))"
  proof (cases r)
    case (Return x)
    with p1 ms show ?thesis by (simp add: try_except_def)
  next
    case (Raise e)
    have "prefix (trace s') (trace (snd (handler e s')))" using appendsD [OF assms(2)] .
    with p1 show ?thesis using ms Raise by (auto simp: try_except_def intro: prefix_order.trans)
  qed
qed

lemma appends_for_each [intro!]: "(\<And>x. appends (body x)) \<Longrightarrow> appends (for_each xs body)"
  by (induction xs) auto

lemma appends_if [intro!]: "appends a \<Longrightarrow> appends b \<Longrightarrow> appends (if c then a else b)"
  by simp

lemma appends_print_header [intro!, simp]: "appends (print_header w t)"
  by (auto simp: print_header_def)

lemma appends_print_step [intro!, simp]: "appends (print_step w n t)"
  by (auto simp: print_step_def)

lemma appends_import_module_io [intro!, simp]: "appends (import_module_io w name)"
  by (simp add: appends_def import_module_io_def emit_eq_emits split: option.splits)

lemma appends_subprocess_run [intro!, simp]: "appends (subprocess_run w cmd timeout)"
  by (simp add: appends_def subprocess_run_def emit_eq_emits split: sum.splits)

lemma appends_getenv_io [intro!, simp]: "appends (getenv_io w name)"
  by (simp add: appends_def getenv_io_def emit_eq_emits)

lemma appends_write_file [intro!, simp]: "appends (write_file w path text)"
  by (simp add: appends_def write_file_def emit_eq_emits split: option.splits)

lemma appends_check_call [intro!, simp]: "appends (check_call w cmd)"
  by (auto simp: check_call_def)

lemma appends_install_package [intro!, simp]: "appends (install_package w package)"
  by (auto simp: install_package_def)

lemma appends_test_streamlit [intro!, simp]: "appends (test_streamlit w)"
  by (auto simp: test_streamlit_def)

lemma appends_check_environment_variables [intro!, simp]: "appends (check_environment_variables w)"
  by (auto simp: check_environment_variables_def check_environment_variable_def Let_def)

lemma appends_create_env_template [intro!, simp]: "appends (create_env_template w)"
  by (auto simp: create_env_template_def)


section \<open>The dependency loop\<close>

lemma install_package_apply:
  "install_package w package s =
     (case spawn w (pip_command w package) None of
        Inr p \<Rightarrow> (Return (returncode p = 0), emits s [Subprocess (pip_command w package) None])
      | Inl e \<Rightarrow>
          if is_CalledProcessError e
          then (Return False, emits s [Subprocess (pip_command w package) None])
          else (Raise e, emits s [Subprocess (pip_command w package) None]))"
  by (simp add: install_package_def try_except_def check_call_def seq_def bind_def
      subprocess_run_def emit_eq_emits split: sum.splits)

lemma encodable_required_package:
  "(p, i) \<in> set required_packages \<Longrightarrow> encodable p"
  by (auto simp: required_packages_def)

lemma dependency_loop_step:
  assumes "encodable p"
  shows "dependency_loop w ((p, i) # rest) acc s =
     (case import_module w i of
        None \<Rightarrow>
          dependency_loop w rest (acc @ [(p, True)])
            (emits s [Import i, Print (check_mark @ str '' '' @ p @ str '' is installed'')])
      | Some e \<Rightarrow>
          if \<not> is_ImportError e then (Raise e, emits s [Import i])
          else
            (case install_package w p
                    (emits s [Import i,
                       Print (cross_mark @ str '' '' @ p @ str '' is not installed. Installing...'')]) of
               (Return installed, s') \<Rightarrow>
                 dependency_loop w rest (acc @ [(p, installed)])
                   (emits s' [Print (if installed
                                     then check_mark @ str '' Successfully installed '' @ p
                                     else cross_mark @ str '' Failed to install '' @ p)])
             | (Raise e', s') \<Rightarrow> (Raise e', s')))"
  using assms
  by (simp add: bind_def seq_def try_except_def import_module_io_def emit_eq_emits
      split: option.splits prod.splits outcome.splits)

declare dependency_loop.simps(2) [simp del]

lemma dependency_loop_Return:
  assumes "\<forall>(p, i) \<in> set ps. encodable p"
      and "dependency_loop w ps acc s = (Return rs, s')"
  shows "rs = acc @ map (\<lambda>(p, i). (p, import_module w i = None \<or> pip_exit_zero w p)) ps
     \<and> s' = emits s (concat (map (package_events w) ps))"
  using assms
proof (induction ps arbitrary: acc s)
  case Nil
  then show ?case by simp
next
  case (Cons a ps)
  obtain p i where a: "a = (p, i)" by (cases a)
  from Cons.prems(1) a have enc: "encodable p" and rest: "\<forall>(p, i) \<in> set ps. encodable p"
    by simp_all
  note ret = Cons.prems(2) [unfolded a]
  show ?case
  proof (cases "import_module w i")
    case None
    with ret have
      "dependency_loop w ps (acc @ [(p, True)])
         (emits s [Import i, Print (check_mark @ str '' '' @ p @ str '' is installed'')]) = (Return rs, s')"
      by (simp add: dependency_loop_step [OF enc])
    from Cons.IH [OF rest this] None a show ?thesis
      by (simp add: package_events_def)
  next
    case (Some e)
    show ?thesis
    proof (cases "spawn w (pip_command w p) None")
      case (Inr cp)
      with ret Some have
        "dependency_loop w ps (acc @ [(p, returncode cp = 0)])
           (emits s [Import i,
              Print (cross_mark @ str '' '' @ p @ str '' is not installed. Installing...''),
              Subprocess (pip_command w p) None,
              Print (if returncode cp = 0
                     then check_mark @ str '' Successfully installed '' @ p
                     else cross_mark @ str '' Failed to install '' @ p)]) = (Return rs, s')"
        by (simp add: dependency_loop_step [OF enc] install_package_apply split: if_splits)
      from Cons.IH [OF rest this] Some a Inr show ?thesis
        by (simp add: package_events_def pip_exit_zero_def)
    next
      case (Inl e')
      with ret Some have
        "dependency_loop w ps (acc @ [(p, False)])
           (emits s [Import i,
              Print (cross_mark @ str '' '' @ p @ str '' is not installed. Installing...''),
              Subprocess (pip_command w p) None,
              Print (cross_mark @ str '' Failed to install '' @ p)]) = (Return rs, s')"
        by (simp add: dependency_loop_step [OF enc] install_package_apply split: if_splits)
      from Cons.IH [OF rest this] Some a Inl show ?thesis
        by (simp add: package_events_def pip_exit_zero_def)
    qed
  qed
qed

text \<open>The loop returns when no call raises anything but the exceptions the code catches.\<close>

lemma dependency_loop_returns:
  assumes "\<forall>(p, i) \<in> set ps. encodable p"
      and "\<forall>(p, i) \<in> set ps.
             import_module w i = None
             \<or> ((\<exists>m. import_module w i = Some (ImportError m))
                \<and> (\<exists>cp. spawn w (pip_command w p) None = Inr cp))"
  shows "\<exists>rs s'. dependency_loop w ps acc s = (Return rs, s')"
  using assms
proof (induction ps arbitrary: acc s)
  case Nil
  then show ?case by simp
next
  case (Cons a ps)
  obtain p i where a: "a = (p, i)" by (cases a)
  from Cons.prems(1) a have enc: "encodable p" and enc_rest: "\<forall>(p, i) \<in> set ps. encodable p"
    by simp_all
  from Cons.prems(2) have rest: "\<forall>(p, i) \<in> set ps.
             import_module w i = None
             \<or> ((\<exists>m. import_module w i = Some (ImportError m))
                \<and> (\<exists>cp. spawn w (pip_command w p) None = Inr cp))" by simp
  from Cons.prems(2) a consider
      "import_module w i = None"
    | m cp where "import_module w i = Some (ImportError m)" "spawn w (pip_command w p) None = Inr cp"
    by auto
  then show ?case
  proof cases
    case 1
    then show ?thesis using Cons.IH [OF enc_rest rest] a by (simp add: dependency_loop_step [OF enc])
  next
    case 2
    then show ?thesis using Cons.IH [OF enc_rest rest] a
      by (simp add: dependency_loop_step [OF enc] install_package_apply)
  qed
qed

lemma encodable_required_packages: "\<forall>(p, i) \<in> set required_packages. encodable p"
  using encodable_required_package by blast


section \<open>The structure of main\<close>

lemma seq_assoc: "seq (seq m k1) k2 = seq m (seq k1 k2)"
  by (rule ext) (simp add: seq_def bind_def split: prod.splits outcome.splits)

lemma for_each_print:
  "\<forall>x \<in> set xs. encodable (f x) \<Longrightarrow>
   for_each xs (\<lambda>x. print w (f x)) s = (Return (), emits s (map (\<lambda>x. Print (f x)) xs))"
  by (induction xs arbitrary: s) simp_all

lemma seq_for_each_print [simp]:
  "\<forall>x \<in> set xs. encodable (f x) \<Longrightarrow>
   seq (for_each xs (\<lambda>x. print w (f x))) k s = k (emits s (map (\<lambda>x. Print (f x)) xs))"
  by (simp add: seq_Return [OF for_each_print])

lemma main_split:
  "main w =
     seq (print_header w (str ''Agentic RAG Setup and Environment Check''))
    (seq (print_step w 1 (str ''Checking Python Version''))
    (bind (check_python_version w) (\<lambda>compatible.
       if \<not> compatible
       then seq (print w (newline @ cross_mark @ str '' Setup failed: Incompatible Python version''))
                (return False)
       else
         seq (print_step w 2 (str ''Checking and Installing Dependencies''))
        (bind (check_and_install_dependencies w) (\<lambda>results.
           seq (if failed_packages_of results \<noteq> []
                then seq (print w (newline @ cross_mark @ str '' Failed to install packages: ''
                                 @ join (str '', '') (failed_packages_of results)))
                    (seq (print w (str ''Please install them manually using:''))
                         (for_each (failed_packages_of results)
                            (\<lambda>pkg. print w (str ''   pip install '' @ pkg))))
                else print w (newline @ check_mark @ str '' All dependencies are installed''))
               (remaining_stages w))))))"
  unfolding main_def remaining_stages_def Let_def by (rule refl)

lemma appends_remaining_stages: "appends (remaining_stages w)"
  unfolding remaining_stages_def
  by (intro appends_seq appends_print_step appends_print_header appends_print appends_return
      appends_test_streamlit appends_check_environment_variables appends_create_env_template)

lemma prefix_seq_after:
  "appends m \<Longrightarrow> appends k \<Longrightarrow> prefix (trace s @ es) (trace (snd (seq m k (emits s es))))"
  by (rule appends_after) (rule appends_seq)

lemma prefix_seq_print_step:
  assumes "appends k" and "encodable t"
  shows "prefix (trace s @ es @ [Print (newline @ str_of_int n @ str ''. '' @ t),
                                 Print (replicate 40 (of_char CHR ''-''))])
           (trace (snd (seq (print_step w n t) k (emits s es))))"
  using assms(2) appends_after [OF assms(1), of s "es @ [Print (newline @ str_of_int n @ str ''. '' @ t),
                                 Print (replicate 40 (of_char CHR ''-''))]"]
  by simp

lemma remaining_stages_starts:
  "prefix (trace s @ es @ [Print (newline @ str_of_int 3 @ str ''. '' @ str ''Testing Streamlit''),
                           Print (replicate 40 (of_char CHR ''-''))])
     (trace (snd (remaining_stages w (emits s es))))"
  unfolding remaining_stages_def
  by (rule prefix_seq_print_step [OF _ encodable_str])
    (intro appends_seq appends_print_step appends_print_header appends_print appends_return
      appends_test_streamlit appends_check_environment_variables appends_create_env_template)

lemma main_incompatible:
  assumes "version_info w = (major, minor, micro)" and "\<not> (3 \<le> major \<and> 8 \<le> minor)"
  shows "main w s =
     (Return False,
      emits s (map Print
        [newline @ replicate 60 (of_char CHR ''=''),
         str ''  '' @ str ''Agentic RAG Setup and Environment Check'',
         replicate 60 (of_char CHR ''=''),
         newline @ str_of_int 1 @ str ''. '' @ str ''Checking Python Version'',
         replicate 40 (of_char CHR ''-''),
         str ''Python version: '' @ str_of_int major @ str ''.'' @ str_of_int minor
           @ str ''.'' @ str_of_int micro,
         cross_mark @ str '' Python '' @ str_of_int 3 @ str ''.'' @ str_of_int 8 @ str ''+ is required'',
         newline @ cross_mark @ str '' Setup failed: Incompatible Python version'']))"
  using assms
  by (cases "3 \<le> major"; cases "8 \<le> minor"; simp add: main_def bind_def check_python_version_apply)

lemma main_compatible:
  assumes "version_info w = (major, minor, micro)" and "3 \<le> major" and "8 \<le> minor"
      and "check_and_install_dependencies w (emits s (map Print (opening_lines w)))
             = (Return results, emits s (map Print (opening_lines w) @ evs))"
      and "\<forall>pkg \<in> set (failed_packages_of results). encodable pkg"
  shows "main w s =
     remaining_stages w
       (emits s (map Print (opening_lines w) @ evs @
          (if failed_packages_of results \<noteq> []
           then [Print (newline @ cross_mark @ str '' Failed to install packages: ''
                        @ join (str '', '') (failed_packages_of results)),
                 Print (str ''Please install them manually using:'')]
                @ map (\<lambda>pkg. Print (str ''   pip install '' @ pkg)) (failed_packages_of results)
           else [Print (newline @ check_mark @ str '' All dependencies are installed'')])))"
proof -
  have ol: "opening_lines w = [newline @ replicate 60 (of_char CHR ''=''),
         str ''  '' @ str ''Agentic RAG Setup and Environment Check'',
         replicate 60 (of_char CHR ''=''),
         newline @ str_of_int 1 @ str ''. '' @ str ''Checking Python Version'',
         replicate 40 (of_char CHR ''-''),
         str ''Python version: '' @ str_of_int major @ str ''.'' @ str_of_int minor
           @ str ''.'' @ str_of_int micro,
         check_mark @ str '' Python version is compatible'',
         newline @ str_of_int 2 @ str ''. '' @ str ''Checking and Installing Dependencies'',
         replicate 40 (of_char CHR ''-'')]"
    using assms(1) by (simp add: opening_lines_def)
  have deps: "check_and_install_dependencies w (emits s (map Print (opening_lines w)))
             = (Return results, emits s (map Print (opening_lines w) @ evs))" by fact
  have joined: "encodable (join (str '', '') (failed_packages_of results))"
    using assms(5) by (intro encodable_join) (simp_all add: list_all_iff)
  show ?thesis
    using assms(1-3,5) deps [unfolded ol] joined
    by (simp add: main_split bind_def check_python_version_apply seq_assoc ol)
qed


section \<open>The exit status and the abort at the version gate\<close>

text \<open>
  C2. Whenever \<open>main\<close> returns, whatever the value it returns, the script ends with exit
  status 0 in the state \<open>main\<close> left; in particular, when \<open>check_python_version\<close> returns
  \<open>False\<close>, \<open>main\<close> returns \<open>False\<close> and the exit status is still 0.
\<close>

theorem script_exit_status_ignores_result:
  "(\<forall>r s'. main w s = (Return r, s') \<longrightarrow> script w s = (0, s'))
   \<and> (fst (check_python_version w s1) = Return False \<longrightarrow>
        fst (main w s) = Return False \<and> fst (script w s) = 0)"
proof (intro conjI allI impI)
  fix r s'
  assume "main w s = (Return r, s')"
  then show "script w s = (0, s')" by (simp add: script_def)
next
  assume gate: "fst (check_python_version w s1) = Return False"
  obtain major minor micro where v: "version_info w = (major, minor, micro)"
    by (cases "version_info w")
  with gate have "\<not> (3 \<le> major \<and> 8 \<le> minor)" by (simp add: check_python_version_apply)
  from main_incompatible [OF v this, of s]
  show "fst (main w s) = Return False" and "fst (script w s) = 0"
    by (simp_all add: script_def)
qed

theorem script_exit_status_ignores_result_witness:
  "fst (check_python_version (example_world\<lparr>version_info := (3, 7, 17)\<rparr>) initial_state) = Return False
   \<and> fst (main (example_world\<lparr>version_info := (3, 7, 17)\<rparr>) initial_state) = Return False
   \<and> fst (script (example_world\<lparr>version_info := (3, 7, 17)\<rparr>) initial_state) = 0"
proof -
  have gate: "fst (check_python_version (example_world\<lparr>version_info := (3, 7, 17)\<rparr>) initial_state)
                = Return False"
    by (simp add: check_python_version_apply)
  with script_exit_status_ignores_result
         [of "example_world\<lparr>version_info := (3, 7, 17)\<rparr>" initial_state initial_state]
  show ?thesis by simp
qed

text \<open>
  C3. When \<open>check_python_version\<close> returns \<open>False\<close>, \<open>main\<close> returns \<open>False\<close> after printing
  eight lines (the banner, the heading of step 1, the version, the required version and the
  failure notice) and nothing else happens: the run adds only \<open>Print\<close> events to the trace
  (no import probe, no child process, no environment variable read, no file opened or
  written) and the files are as they were.
\<close>

theorem main_stops_at_version_gate:
  assumes "fst (check_python_version w s1) = Return False"
  shows "(case version_info w of (major, minor, micro) \<Rightarrow>
           main w s =
             (Return False,
              emits s (map Print
                [newline @ replicate 60 (of_char CHR ''=''),
                 str ''  '' @ str ''Agentic RAG Setup and Environment Check'',
                 replicate 60 (of_char CHR ''=''),
                 newline @ str_of_int 1 @ str ''. '' @ str ''Checking Python Version'',
                 replicate 40 (of_char CHR ''-''),
                 str ''Python version: '' @ str_of_int major @ str ''.'' @ str_of_int minor
                   @ str ''.'' @ str_of_int micro,
                 cross_mark @ str '' Python '' @ str_of_int 3 @ str ''.'' @ str_of_int 8
                   @ str ''+ is required'',
                 newline @ cross_mark @ str '' Setup failed: Incompatible Python version''])))
     \<and> list_all is_Print (drop (length (trace s)) (trace (snd (main w s))))
     \<and> files (snd (main w s)) = files s"
proof -
  obtain major minor micro where v: "version_info w = (major, minor, micro)"
    by (cases "version_info w")
  with assms have "\<not> (3 \<le> major \<and> 8 \<le> minor)" by (simp add: check_python_version_apply)
  from main_incompatible [OF v this, of s] v show ?thesis by simp
qed

theorem main_stops_at_version_gate_witness:
  "fst (main (example_world\<lparr>version_info := (3, 7, 17)\<rparr>) initial_state) = Return False
   \<and> list_all is_Print (trace (snd (main (example_world\<lparr>version_info := (3, 7, 17)\<rparr>) initial_state)))
   \<and> length (trace (snd (main (example_world\<lparr>version_info := (3, 7, 17)\<rparr>) initial_state))) = 8
   \<and> files (snd (main (example_world\<lparr>version_info := (3, 7, 17)\<rparr>) initial_state)) = Map.empty"
proof -
  have gate: "fst (check_python_version (example_world\<lparr>version_info := (3, 7, 17)\<rparr>) initial_state)
                = Return False"
    by (simp add: check_python_version_apply)
  from main_stops_at_version_gate [OF gate, of initial_state]
  show ?thesis by (simp add: example_world_def initial_state_def)
qed

section \<open>The results of the dependency check\<close>

lemma filter_is_Import_package_events:
  "filter is_Import (concat (map (package_events w) ps)) = map (\<lambda>(p, i). Import i) ps"
  by (induction ps) (auto simp: package_events_def)

lemma length_required_packages: "length required_packages = 13"
  by (simp add: required_packages_def)

text \<open>
  C10. Whenever \<open>check_and_install_dependencies\<close> returns, its result has one pair for each
  of the 13 entries of the package list, in the order of the list, and the flag of a package
  is \<open>True\<close> exactly when its import probe succeeded or its \<^verbatim>\<open>pip install\<close> process
  exited with code 0; each import name is probed once and never again after an install. It
  does return whenever every probe either succeeds or raises \<open>ImportError\<close> and every
  \<^verbatim>\<open>pip install\<close> that is started runs to its end.
\<close>

theorem check_and_install_dependencies_results:
  "(\<forall>rs s'. check_and_install_dependencies w s = (Return rs, s') \<longrightarrow>
      rs = map (\<lambda>(package_name, import_name).
                  (package_name, import_module w import_name = None \<or> pip_exit_zero w package_name))
             required_packages
      \<and> length rs = 13
      \<and> map fst rs = map fst required_packages
      \<and> filter is_Import (drop (length (trace s)) (trace s'))
          = map (\<lambda>(package_name, import_name). Import import_name) required_packages)
   \<and> ((\<forall>(package_name, import_name) \<in> set required_packages.
          import_module w import_name = None
          \<or> ((\<exists>m. import_module w import_name = Some (ImportError m))
             \<and> (\<exists>p. spawn w (pip_command w package_name) None = Inr p)))
       \<longrightarrow> (\<exists>rs s'. check_and_install_dependencies w s = (Return rs, s')))"
proof (intro conjI allI impI)
  fix rs s'
  assume ret: "check_and_install_dependencies w s = (Return rs, s')"
  from dependency_loop_Return [OF encodable_required_packages
      ret [unfolded check_and_install_dependencies_def]]
  have rs: "rs = map (\<lambda>(p, i). (p, import_module w i = None \<or> pip_exit_zero w p)) required_packages"
    and s': "s' = emits s (concat (map (package_events w) required_packages))"
    by simp_all
  show "rs = map (\<lambda>(package_name, import_name).
                  (package_name, import_module w import_name = None \<or> pip_exit_zero w package_name))
             required_packages"
    by (fact rs)
  show "length rs = 13" by (simp add: rs length_required_packages)
  show "map fst rs = map fst required_packages" by (simp add: rs case_prod_unfold)
  show "filter is_Import (drop (length (trace s)) (trace s'))
          = map (\<lambda>(package_name, import_name). Import import_name) required_packages"
    by (simp add: s' filter_is_Import_package_events)
next
  assume "\<forall>(package_name, import_name) \<in> set required_packages.
          import_module w import_name = None
          \<or> ((\<exists>m. import_module w import_name = Some (ImportError m))
             \<and> (\<exists>p. spawn w (pip_command w package_name) None = Inr p))"
  from dependency_loop_returns [OF encodable_required_packages this]
  show "\<exists>rs s'. check_and_install_dependencies w s = (Return rs, s')"
    by (simp add: check_and_install_dependencies_def)
qed

lemma str_eq_iff [simp]: "str a = str b \<longleftrightarrow> a = b"
  by (simp add: str_def inj_map_eq_map [OF inj_of_char])

lemma example_world_missing_normal:
  "\<forall>(package_name, import_name) \<in> set required_packages.
          import_module example_world_missing import_name = None
          \<or> ((\<exists>m. import_module example_world_missing import_name = Some (ImportError m))
             \<and> (\<exists>p. spawn example_world_missing (pip_command example_world_missing package_name) None = Inr p))"
  by (simp add: required_packages_def example_world_missing_def example_world_def)

theorem check_and_install_dependencies_results_witness:
  "fst (check_and_install_dependencies example_world_missing initial_state) =
     Return [(str ''streamlit'', True), (str ''google-generativeai'', True), (str ''langchain'', True),
             (str ''langchain-community'', True), (str ''langchain-core'', True),
             (str ''langchain-qdrant'', True), (str ''qdrant-client'', True), (str ''pypdf'', True),
             (str ''beautifulsoup4'', False), (str ''agno'', True), (str ''requests'', True),
             (str ''numpy'', True), (str ''python-dotenv'', True)]"
proof -
  note inst = check_and_install_dependencies_results [of example_world_missing initial_state]
  from inst example_world_missing_normal
  obtain rs s' where ret: "check_and_install_dependencies example_world_missing initial_state = (Return rs, s')"
    by blast
  with inst have "rs = map (\<lambda>(package_name, import_name).
                  (package_name, import_module example_world_missing import_name = None
                     \<or> pip_exit_zero example_world_missing package_name))
             required_packages"
    by blast
  then have "rs = [(str ''streamlit'', True), (str ''google-generativeai'', True), (str ''langchain'', True),
             (str ''langchain-community'', True), (str ''langchain-core'', True),
             (str ''langchain-qdrant'', True), (str ''qdrant-client'', True), (str ''pypdf'', True),
             (str ''beautifulsoup4'', False), (str ''agno'', True), (str ''requests'', True),
             (str ''numpy'', True), (str ''python-dotenv'', True)]"
    by (simp add: required_packages_def example_world_missing_def example_world_def
        pip_exit_zero_def pip_command_def)
  with ret show ?thesis by simp
qed


section \<open>The summary of the dependency stage\<close>

lemma check_and_install_dependencies_normal:
  assumes "\<forall>(p, i) \<in> set required_packages.
             import_module w i = None
             \<or> ((\<exists>m. import_module w i = Some (ImportError m))
                \<and> (\<exists>cp. spawn w (pip_command w p) None = Inr cp))"
  shows "check_and_install_dependencies w s =
           (Return (map (\<lambda>(p, i). (p, import_module w i = None \<or> pip_exit_zero w p)) required_packages),
            emits s (concat (map (package_events w) required_packages)))"
proof -
  from dependency_loop_returns [OF encodable_required_packages assms, of "[]" s]
  obtain rs s' where ret: "dependency_loop w required_packages [] s = (Return rs, s')" by blast
  from dependency_loop_Return [OF encodable_required_packages ret] ret show ?thesis
    by (simp add: check_and_install_dependencies_def)
qed

lemma failed_packages_of_Nil [simp]: "failed_packages_of [] = []"
  by (simp add: failed_packages_of_def)

lemma failed_packages_of_Cons [simp]:
  "failed_packages_of ((p, b) # rs) = (if b then failed_packages_of rs else p # failed_packages_of rs)"
  by (simp add: failed_packages_of_def)

lemma failed_packages_of_all_True:
  "failed_packages_of (map (\<lambda>(p, i). (p, True)) ps) = []"
  by (induction ps) auto

lemma failed_packages_of_single:
  assumes "distinct (map snd ps)" and "(p, i) \<in> set ps"
  shows "failed_packages_of (map (\<lambda>(p', i'). (p', i' \<noteq> i)) ps) = [p]"
  using assms
proof (induction ps)
  case Nil
  then show ?case by simp
next
  case (Cons a ps)
  obtain p' i' where a: "a = (p', i')" by (cases a)
  show ?case
  proof (cases "i' = i")
    case True
    with Cons.prems a have notin: "i \<notin> snd ` set ps" by simp
    then have "\<forall>(q, j) \<in> set ps. j \<noteq> i" by force
    then have "map (\<lambda>(p', i'). (p', i' \<noteq> i)) ps = map (\<lambda>(p', i'). (p', True)) ps"
      by (intro map_cong) auto
    then have rest: "failed_packages_of (map (\<lambda>(p', i'). (p', i' \<noteq> i)) ps) = []"
      by (simp only: failed_packages_of_all_True)
    from Cons.prems a True notin have "p' = p" by force
    with a True rest show ?thesis by simp
  next
    case False
    with Cons.prems a have "(p, i) \<in> set ps" "distinct (map snd ps)" by auto
    from Cons.IH [OF this(2) this(1)] a False show ?thesis by simp
  qed
qed

lemma no_Subprocess_when_installed:
  "filter is_Subprocess
     (concat (map (\<lambda>(package_name, import_name).
                [Import import_name,
                 Print (check_mark @ str '' '' @ package_name @ str '' is installed'')]) ps)) = []"
  by (induction ps) auto

lemma trace_initial_state [simp]: "trace initial_state = []"
  by (simp add: initial_state_def)

lemma files_initial_state [simp]: "files initial_state = Map.empty"
  by (simp add: initial_state_def)

lemma distinct_import_names: "distinct (map snd required_packages)"
  by (simp add: required_packages_def)

text \<open>
  C5. When the import probe succeeds for every entry of the package list,
  \<open>check_and_install_dependencies\<close> returns the flag \<open>True\<close> for every package and adds to
  the trace one probe and one status line per package and nothing else, so no child
  process is started; and \<open>main\<close>, once past the version gate, prints after these the line
  ``All dependencies are installed'' and goes straight on to the heading of step 3.
\<close>

theorem all_dependencies_present:
  assumes "fst (check_python_version w s1) = Return True"
      and "\<forall>(package_name, import_name) \<in> set required_packages. import_module w import_name = None"
  shows "check_and_install_dependencies w s =
           (Return (map (\<lambda>(package_name, import_name). (package_name, True)) required_packages),
            emits s (concat (map (\<lambda>(package_name, import_name).
                       [Import import_name,
                        Print (check_mark @ str '' '' @ package_name @ str '' is installed'')])
                     required_packages)))
     \<and> filter is_Subprocess
         (drop (length (trace s)) (trace (snd (check_and_install_dependencies w s)))) = []
     \<and> prefix
         (trace s @ map Print (opening_lines w)
          @ concat (map (\<lambda>(package_name, import_name).
                       [Import import_name,
                        Print (check_mark @ str '' '' @ package_name @ str '' is installed'')])
                     required_packages)
          @ [Print (newline @ check_mark @ str '' All dependencies are installed''),
             Print (newline @ str_of_int 3 @ str ''. '' @ str ''Testing Streamlit''),
             Print (replicate 40 (of_char CHR ''-''))])
         (trace (snd (main w s)))"
proof -
  let ?evs = "concat (map (\<lambda>(package_name, import_name).
                       [Import import_name,
                        Print (check_mark @ str '' '' @ package_name @ str '' is installed'')])
                     required_packages)"
  obtain major minor micro where v: "version_info w = (major, minor, micro)"
    by (cases "version_info w")
  with assms(1) have compat: "3 \<le> major" "8 \<le> minor"
    by (simp_all add: check_python_version_apply)
  from assms(2) have normal: "\<forall>(p, i) \<in> set required_packages.
             import_module w i = None
             \<or> ((\<exists>m. import_module w i = Some (ImportError m))
                \<and> (\<exists>cp. spawn w (pip_command w p) None = Inr cp))" by auto
  have flags: "map (\<lambda>(p, i). (p, import_module w i = None \<or> pip_exit_zero w p)) required_packages
                 = map (\<lambda>(p, i). (p, True)) required_packages"
    using assms(2) by (intro map_cong) auto
  have events: "map (package_events w) required_packages
                 = map (\<lambda>(package_name, import_name).
                       [Import import_name,
                        Print (check_mark @ str '' '' @ package_name @ str '' is installed'')])
                     required_packages"
    using assms(2) by (intro map_cong) (auto simp: package_events_def)
  have deps: "check_and_install_dependencies w s =
           (Return (map (\<lambda>(p, i). (p, True)) required_packages), emits s ?evs)" for s
    using check_and_install_dependencies_normal [OF normal, of s] by (simp add: flags events)
  have no_sub: "filter is_Subprocess ?evs = []"
    by (rule no_Subprocess_when_installed)
  have "main w s = remaining_stages w
       (emits s (map Print (opening_lines w) @ ?evs
          @ [Print (newline @ check_mark @ str '' All dependencies are installed'')]))"
    using main_compatible [OF v compat, of s "map (\<lambda>(p, i). (p, True)) required_packages" ?evs]
      deps [of "emits s (map Print (opening_lines w))"]
    by (simp add: failed_packages_of_all_True)
  moreover have "prefix (trace s @ (map Print (opening_lines w) @ ?evs
          @ [Print (newline @ check_mark @ str '' All dependencies are installed'')])
          @ [Print (newline @ str_of_int 3 @ str ''. '' @ str ''Testing Streamlit''),
             Print (replicate 40 (of_char CHR ''-''))])
     (trace (snd (remaining_stages w (emits s (map Print (opening_lines w) @ ?evs
          @ [Print (newline @ check_mark @ str '' All dependencies are installed'')])))))"
    by (rule remaining_stages_starts)
  ultimately have "prefix
         (trace s @ map Print (opening_lines w) @ ?evs
          @ [Print (newline @ check_mark @ str '' All dependencies are installed''),
             Print (newline @ str_of_int 3 @ str ''. '' @ str ''Testing Streamlit''),
             Print (replicate 40 (of_char CHR ''-''))])
         (trace (snd (main w s)))" by simp
  with deps [of s] no_sub show ?thesis by simp
qed

theorem all_dependencies_present_witness:
  "check_and_install_dependencies example_world initial_state =
           (Return (map (\<lambda>(package_name, import_name). (package_name, True)) required_packages),
            emits initial_state (concat (map (\<lambda>(package_name, import_name).
                       [Import import_name,
                        Print (check_mark @ str '' '' @ package_name @ str '' is installed'')])
                     required_packages)))
     \<and> filter is_Subprocess
         (drop (length (trace initial_state))
            (trace (snd (check_and_install_dependencies example_world initial_state)))) = []
     \<and> prefix
         (trace initial_state @ map Print (opening_lines example_world)
          @ concat (map (\<lambda>(package_name, import_name).
                       [Import import_name,
                        Print (check_mark @ str '' '' @ package_name @ str '' is installed'')])
                     required_packages)
          @ [Print (newline @ check_mark @ str '' All dependencies are installed''),
             Print (newline @ str_of_int 3 @ str ''. '' @ str ''Testing Streamlit''),
             Print (replicate 40 (of_char CHR ''-''))])
         (trace (snd (main example_world initial_state)))"
proof -
  have gate: "fst (check_python_version example_world initial_state) = Return True"
    by (simp add: check_python_version_apply example_world_def)
  have probes: "\<forall>(package_name, import_name) \<in> set required_packages.
                  import_module example_world import_name = None"
    by (simp add: example_world_def)
  show ?thesis by (rule all_dependencies_present [OF gate probes])
qed

lemma distinct_snd_unique:
  "distinct (map snd ps) \<Longrightarrow> (a, i) \<in> set ps \<Longrightarrow> (b, i) \<in> set ps \<Longrightarrow> a = b"
  by (induction ps) force+

text \<open>
  C6. When the import probe of exactly one package of the list fails and its
  \<^verbatim>\<open>pip install\<close> exits with a code other than 0, while every other probe succeeds, that
  package is the only one whose flag is \<open>False\<close>, and \<open>main\<close>, once past the version gate,
  follows the dependency stage with exactly these lines before the heading of step 3: the
  failure line naming that package alone, the line introducing the manual commands, and
  the single line \<^verbatim>\<open>   pip install <package name>\<close>.
\<close>

theorem one_unresolvable_package:
  assumes "fst (check_python_version w s1) = Return True"
      and "(package_name, import_name) \<in> set required_packages"
      and "import_module w import_name = Some (ImportError m)"
      and "spawn w (pip_command w package_name) None = Inr p"
      and "returncode p \<noteq> 0"
      and "\<forall>(package_name', import_name') \<in> set required_packages.
             import_name' \<noteq> import_name \<longrightarrow> import_module w import_name' = None"
  shows "fst (check_and_install_dependencies w s) =
           Return (map (\<lambda>(package_name', import_name'). (package_name', import_name' \<noteq> import_name))
                     required_packages)
     \<and> failed_packages_of
          (map (\<lambda>(package_name', import_name'). (package_name', import_name' \<noteq> import_name))
             required_packages) = [package_name]
     \<and> prefix
         (trace s @ map Print (opening_lines w)
          @ concat (map (package_events w) required_packages)
          @ [Print (newline @ cross_mark @ str '' Failed to install packages: '' @ package_name),
             Print (str ''Please install them manually using:''),
             Print (str ''   pip install '' @ package_name),
             Print (newline @ str_of_int 3 @ str ''. '' @ str ''Testing Streamlit''),
             Print (replicate 40 (of_char CHR ''-''))])
         (trace (snd (main w s)))"
proof -
  let ?results = "map (\<lambda>(p', i'). (p', i' \<noteq> import_name)) required_packages"
  let ?evs = "concat (map (package_events w) required_packages)"
  let ?summary = "[Print (newline @ cross_mark @ str '' Failed to install packages: '' @ package_name),
             Print (str ''Please install them manually using:''),
             Print (str ''   pip install '' @ package_name)]"
  obtain major minor micro where v: "version_info w = (major, minor, micro)"
    by (cases "version_info w")
  with assms(1) have compat: "3 \<le> major" "8 \<le> minor"
    by (simp_all add: check_python_version_apply)
  have names: "package_name' = package_name"
    if "(package_name', import_name) \<in> set required_packages" for package_name'
    using distinct_snd_unique [OF distinct_import_names that assms(2)] .
  have normal_at: "import_module w i' = None
             \<or> ((\<exists>m. import_module w i' = Some (ImportError m))
                \<and> (\<exists>cp. spawn w (pip_command w p') None = Inr cp))"
    if mem: "(p', i') \<in> set required_packages" for p' i'
  proof (cases "i' = import_name")
    case True
    with mem names have "p' = package_name" by simp
    with True assms(3,4) show ?thesis by simp
  next
    case False
    with mem assms(6) show ?thesis by auto
  qed
  then have normal: "\<forall>(p', i') \<in> set required_packages.
             import_module w i' = None
             \<or> ((\<exists>m. import_module w i' = Some (ImportError m))
                \<and> (\<exists>cp. spawn w (pip_command w p') None = Inr cp))"
    by blast
  have flag_at: "(import_module w i' = None \<or> pip_exit_zero w p') = (i' \<noteq> import_name)"
    if mem: "(p', i') \<in> set required_packages" for p' i'
  proof (cases "i' = import_name")
    case True
    with mem names have "p' = package_name" by simp
    with True assms(3,4,5) show ?thesis by (simp add: pip_exit_zero_def)
  next
    case False
    with mem assms(6) show ?thesis by auto
  qed
  have flags: "map (\<lambda>(p, i). (p, import_module w i = None \<or> pip_exit_zero w p)) required_packages
                 = ?results"
  proof (rule map_cong [OF refl])
    fix x
    assume x: "x \<in> set required_packages"
    obtain p' i' where "x = (p', i')" by (cases x)
    with x flag_at [of p' i']
    show "(case x of (p, i) \<Rightarrow> (p, import_module w i = None \<or> pip_exit_zero w p))
            = (case x of (p', i') \<Rightarrow> (p', i' \<noteq> import_name))"
      by simp
  qed
  have deps: "check_and_install_dependencies w s = (Return ?results, emits s ?evs)" for s
    using check_and_install_dependencies_normal [OF normal, of s] by (simp only: flags)
  have failed: "failed_packages_of ?results = [package_name]"
    by (rule failed_packages_of_single [OF distinct_import_names assms(2)])
  have "main w s = remaining_stages w (emits s (map Print (opening_lines w) @ ?evs @ ?summary))"
    using main_compatible [OF v compat, of s ?results ?evs]
      deps [of "emits s (map Print (opening_lines w))"]
      encodable_required_package [OF assms(2)]
    by (simp add: failed)
  moreover have "prefix (trace s @ (map Print (opening_lines w) @ ?evs @ ?summary)
          @ [Print (newline @ str_of_int 3 @ str ''. '' @ str ''Testing Streamlit''),
             Print (replicate 40 (of_char CHR ''-''))])
     (trace (snd (remaining_stages w (emits s (map Print (opening_lines w) @ ?evs @ ?summary)))))"
    by (rule remaining_stages_starts)
  ultimately have "prefix
         (trace s @ map Print (opening_lines w) @ ?evs
          @ [Print (newline @ cross_mark @ str '' Failed to install packages: '' @ package_name),
             Print (str ''Please install them manually using:''),
             Print (str ''   pip install '' @ package_name),
             Print (newline @ str_of_int 3 @ str ''. '' @ str ''Testing Streamlit''),
             Print (replicate 40 (of_char CHR ''-''))])
         (trace (snd (main w s)))" by simp
  with deps [of s] failed show ?thesis by simp
qed

theorem one_unresolvable_package_witness:
  "fst (check_and_install_dependencies example_world_unresolvable initial_state) =
           Return (map (\<lambda>(package_name', import_name'). (package_name', import_name' \<noteq> str ''bs4''))
                     required_packages)
     \<and> failed_packages_of
          (map (\<lambda>(package_name', import_name'). (package_name', import_name' \<noteq> str ''bs4''))
             required_packages) = [str ''beautifulsoup4'']
     \<and> prefix
         (trace initial_state @ map Print (opening_lines example_world_unresolvable)
          @ concat (map (package_events example_world_unresolvable) required_packages)
          @ [Print (newline @ cross_mark @ str '' Failed to install packages: '' @ str ''beautifulsoup4''),
             Print (str ''Please install them manually using:''),
             Print (str ''   pip install '' @ str ''beautifulsoup4''),
             Print (newline @ str_of_int 3 @ str ''. '' @ str ''Testing Streamlit''),
             Print (replicate 40 (of_char CHR ''-''))])
         (trace (snd (main example_world_unresolvable initial_state)))"
proof -
  have gate: "fst (check_python_version example_world_unresolvable initial_state) = Return True"
    by (simp add: check_python_version_apply example_world_unresolvable_def
        example_world_missing_def example_world_def)
  have mem: "(str ''beautifulsoup4'', str ''bs4'') \<in> set required_packages"
    by (simp add: required_packages_def)
  have probe: "import_module example_world_unresolvable (str ''bs4'')
                 = Some (ImportError (text_of ''No module named bs4''))"
    by (simp add: example_world_unresolvable_def)
  have pip: "spawn example_world_unresolvable
               (pip_command example_world_unresolvable (str ''beautifulsoup4'')) None
             = Inr \<lparr>returncode = 1, stdout = text_of []\<rparr>"
    by (simp add: example_world_unresolvable_def example_world_missing_def example_world_def
        pip_command_def)
  have code: "returncode \<lparr>returncode = 1, stdout = text_of []\<rparr> \<noteq> 0" by simp
  have others: "\<forall>(package_name', import_name') \<in> set required_packages.
             import_name' \<noteq> str ''bs4'' \<longrightarrow> import_module example_world_unresolvable import_name' = None"
    by (simp add: example_world_unresolvable_def)
  show ?thesis by (rule one_unresolvable_package [OF gate mem probe pip code others])
qed


section \<open>Literals\<close>

lemma length_str [simp]: "length (str cs) = length cs"
  by (simp add: str_def)

lemma take_str [simp]: "take n (str cs) = str (take n cs)"
  by (simp add: str_def take_map)

lemma str_append: "str (a @ b) = str a @ str b"
  by (simp add: str_def)

lemma str_Nil_iff [simp]: "str cs = [] \<longleftrightarrow> cs = []"
  by (simp add: str_def)

section \<open>The concrete surroundings, field by field\<close>

lemma example_world_fields [simp]:
  "version_info example_world = (3, 11, 4)"
  "executable example_world = str ''/usr/bin/python3''"
  "import_module example_world name = None"
  "spawn example_world cmd timeout
     = Inr \<lparr>returncode = 0, stdout = text_of (''Streamlit, version 1.30.0'' @ [CHR 0x0A])\<rparr>"
  "getenv example_world name
     = (if name = str ''GOOGLE_API_KEY'' then Some (str ''AIzaSy0123456789abcd'')
        else if name = str ''QDRANT_API_KEY'' then Some (str ''abc12'')
        else None)"
  "open_w example_world path = None"
  "write_text example_world path text = None"
  "encode_error_text example_world t = text_of ''surrogates not allowed''"
  by (simp_all add: example_world_def)

lemma example_world_undecodable_fields [simp]:
  "version_info example_world_undecodable = (3, 11, 4)"
  "executable example_world_undecodable = str ''/usr/bin/python3''"
  "import_module example_world_undecodable name = None"
  "spawn example_world_undecodable cmd timeout
     = Inr \<lparr>returncode = 0, stdout = text_of (''Streamlit, version 1.30.0'' @ [CHR 0x0A])\<rparr>"
  "encode_error_text example_world_undecodable t = text_of ''surrogates not allowed''"
  by (simp_all add: example_world_undecodable_def)

lemma example_world_interrupted_fields [simp]:
  "version_info example_world_interrupted = (3, 11, 4)"
  "executable example_world_interrupted = str ''/usr/bin/python3''"
  "import_module example_world_interrupted name = None"
  "spawn example_world_interrupted cmd timeout = Inl KeyboardInterrupt"
  by (simp_all add: example_world_interrupted_def)

lemma example_world_timeout_fields [simp]:
  "executable example_world_timeout = str ''/usr/bin/python3''"
  "spawn example_world_timeout cmd timeout = Inl (TimeoutExpired (text_of ''timed out after 10 seconds''))"
  by (simp_all add: example_world_timeout_def)

lemma example_world_launcher_fails_fields [simp]:
  "executable example_world_launcher_fails = str ''/usr/bin/python3''"
  "spawn example_world_launcher_fails cmd timeout = Inr \<lparr>returncode = 1, stdout = text_of []\<rparr>"
  by (simp_all add: example_world_launcher_fails_def)

lemma example_world_read_only_fields [simp]:
  "open_w example_world_read_only path = Some (OSError (text_of ''Permission denied''))"
  by (simp_all add: example_world_read_only_def)

lemma example_world_disk_full_fields [simp]:
  "open_w example_world_disk_full path = None"
  "write_text example_world_disk_full path text = Some (OSError (text_of ''No space left on device''), 40)"
  by (simp_all add: example_world_disk_full_def)

section \<open>The launcher probe\<close>

lemma test_streamlit_apply:
  "test_streamlit w s =
     (case spawn w (streamlit_command w) (Some 10) of
        Inr p \<Rightarrow>
          if returncode p = 0
          then (Return True,
                emits s [Subprocess (streamlit_command w) (Some 10),
                         Print (check_mark @ str '' Streamlit is working correctly''),
                         Print (str ''   Version: '' @ strip (chars (stdout p)))])
          else (Return False,
                emits s [Subprocess (streamlit_command w) (Some 10),
                         Print (cross_mark @ str '' Streamlit test failed'')])
      | Inl e \<Rightarrow>
          if is_Exception e
          then (Return False,
                emits s [Subprocess (streamlit_command w) (Some 10),
                         Print (cross_mark @ str '' Streamlit test error: '' @ exn_text e)])
          else (Raise e, emits s [Subprocess (streamlit_command w) (Some 10)]))"
  by (simp add: test_streamlit_def try_except_def bind_def subprocess_run_def emit_eq_emits
      encodable_strip split: sum.splits)

lemma is_Exception_iff: "is_Exception e \<longleftrightarrow> e \<noteq> KeyboardInterrupt"
  by (cases e) simp_all

lemma remaining_stages_interrupted:
  "spawn w (streamlit_command w) (Some 10) = Inl KeyboardInterrupt \<Longrightarrow>
     fst (remaining_stages w s) = Raise KeyboardInterrupt"
  by (simp add: remaining_stages_def seq_Raise [of "test_streamlit w"] test_streamlit_apply)

text \<open>
  C7, as the code has it. \<open>test_streamlit\<close> runs the launcher once with a timeout of 10
  seconds and has three outcomes in which it returns: the process exits with code 0 (it
  reports success, prints the captured output stripped, and returns \<open>True\<close>); the
  process exits with another code (it prints the generic failure line and returns
  \<open>False\<close>); the invocation raises an exception that derives from \<^verbatim>\<open>Exception\<close>, such as a
  missing binary or the timeout (it prints the failure line with the exception text and
  returns \<open>False\<close>). In these three cases whatever follows runs next. The one case in which
  it raises is an invocation interrupted from the keyboard: \<open>KeyboardInterrupt\<close> is not
  caught and leaves the function.
\<close>

theorem test_streamlit_outcomes:
  "(\<forall>p. spawn w (streamlit_command w) (Some 10) = Inr p \<and> returncode p = 0 \<longrightarrow>
      test_streamlit w s =
        (Return True,
         emits s [Subprocess (streamlit_command w) (Some 10),
                  Print (check_mark @ str '' Streamlit is working correctly''),
                  Print (str ''   Version: '' @ strip (chars (stdout p)))]))
   \<and> (\<forall>p. spawn w (streamlit_command w) (Some 10) = Inr p \<and> returncode p \<noteq> 0 \<longrightarrow>
      test_streamlit w s =
        (Return False,
         emits s [Subprocess (streamlit_command w) (Some 10),
                  Print (cross_mark @ str '' Streamlit test failed'')]))
   \<and> (\<forall>e. spawn w (streamlit_command w) (Some 10) = Inl e \<and> is_Exception e \<longrightarrow>
      test_streamlit w s =
        (Return False,
         emits s [Subprocess (streamlit_command w) (Some 10),
                  Print (cross_mark @ str '' Streamlit test error: '' @ exn_text e)]))
   \<and> (spawn w (streamlit_command w) (Some 10) = Inl KeyboardInterrupt \<longrightarrow>
      test_streamlit w s =
        (Raise KeyboardInterrupt, emits s [Subprocess (streamlit_command w) (Some 10)]))
   \<and> (spawn w (streamlit_command w) (Some 10) \<noteq> Inl KeyboardInterrupt \<longrightarrow>
      (\<exists>b. fst (test_streamlit w s) = Return b)
      \<and> (\<forall>k. seq (test_streamlit w) k s = k (snd (test_streamlit w s))))"
proof (intro conjI allI impI)
  assume "spawn w (streamlit_command w) (Some 10) \<noteq> Inl KeyboardInterrupt"
  then have "\<exists>b s'. test_streamlit w s = (Return b, s')"
    by (cases "spawn w (streamlit_command w) (Some 10)")
      (auto simp: test_streamlit_apply is_Exception_iff)
  then obtain b s' where ret: "test_streamlit w s = (Return b, s')" by blast
  then show "\<exists>b. fst (test_streamlit w s) = Return b" by simp
  fix k :: "'a io"
  from ret show "seq (test_streamlit w) k s = k (snd (test_streamlit w s))"
    by (simp add: seq_def bind_def)
qed (simp_all add: test_streamlit_apply)

theorem test_streamlit_outcomes_witness:
  "test_streamlit example_world initial_state =
     (Return True,
      emits initial_state
        [Subprocess [str ''/usr/bin/python3'', str ''-m'', str ''streamlit'', str ''version''] (Some 10),
         Print (check_mark @ str '' Streamlit is working correctly''),
         Print (str ''   Version: Streamlit, version 1.30.0'')])
   \<and> test_streamlit example_world_launcher_fails initial_state =
     (Return False,
      emits initial_state
        [Subprocess [str ''/usr/bin/python3'', str ''-m'', str ''streamlit'', str ''version''] (Some 10),
         Print (cross_mark @ str '' Streamlit test failed'')])
   \<and> test_streamlit example_world_timeout initial_state =
     (Return False,
      emits initial_state
        [Subprocess [str ''/usr/bin/python3'', str ''-m'', str ''streamlit'', str ''version''] (Some 10),
         Print (cross_mark @ str '' Streamlit test error: timed out after 10 seconds'')])
   \<and> test_streamlit example_world_interrupted initial_state =
     (Raise KeyboardInterrupt,
      emits initial_state
        [Subprocess [str ''/usr/bin/python3'', str ''-m'', str ''streamlit'', str ''version''] (Some 10)])"
proof (intro conjI)
  let ?p = "\<lparr>returncode = 0, stdout = text_of (''Streamlit, version 1.30.0'' @ [CHR 0x0A])\<rparr>"
  have stripped: "strip (str (''Streamlit, version 1.30.0'' @ [CHR 0x0A])) = str ''Streamlit, version 1.30.0''"
    by (simp add: strip_def str_def isspace_def)
  have "spawn example_world (streamlit_command example_world) (Some 10) = Inr ?p \<and> returncode ?p = 0"
    by simp
  with test_streamlit_outcomes [of example_world initial_state]
  have "test_streamlit example_world initial_state =
     (Return True,
      emits initial_state
        [Subprocess (streamlit_command example_world) (Some 10),
         Print (check_mark @ str '' Streamlit is working correctly''),
         Print (str ''   Version: '' @ strip (chars (stdout ?p)))])"
    by blast
  also have "\<dots> = (Return True,
      emits initial_state
        [Subprocess [str ''/usr/bin/python3'', str ''-m'', str ''streamlit'', str ''version''] (Some 10),
         Print (check_mark @ str '' Streamlit is working correctly''),
         Print (str ''   Version: Streamlit, version 1.30.0'')])"
    by (simp add: streamlit_command_def stripped [simplified] flip: str_append)
  finally show "test_streamlit example_world initial_state =
     (Return True,
      emits initial_state
        [Subprocess [str ''/usr/bin/python3'', str ''-m'', str ''streamlit'', str ''version''] (Some 10),
         Print (check_mark @ str '' Streamlit is working correctly''),
         Print (str ''   Version: Streamlit, version 1.30.0'')])" .
next
  let ?p = "\<lparr>returncode = 1, stdout = text_of []\<rparr>"
  have "spawn example_world_launcher_fails (streamlit_command example_world_launcher_fails) (Some 10)
          = Inr ?p \<and> returncode ?p \<noteq> 0"
    by simp
  with test_streamlit_outcomes [of example_world_launcher_fails initial_state]
  have "test_streamlit example_world_launcher_fails initial_state =
     (Return False,
      emits initial_state
        [Subprocess (streamlit_command example_world_launcher_fails) (Some 10),
         Print (cross_mark @ str '' Streamlit test failed'')])"
    by blast
  then show "test_streamlit example_world_launcher_fails initial_state =
     (Return False,
      emits initial_state
        [Subprocess [str ''/usr/bin/python3'', str ''-m'', str ''streamlit'', str ''version''] (Some 10),
         Print (cross_mark @ str '' Streamlit test failed'')])"
    by (simp only: streamlit_command_def example_world_launcher_fails_fields)
next
  let ?e = "TimeoutExpired (text_of ''timed out after 10 seconds'')"
  have "spawn example_world_timeout (streamlit_command example_world_timeout) (Some 10) = Inl ?e
          \<and> is_Exception ?e"
    by simp
  with test_streamlit_outcomes [of example_world_timeout initial_state]
  have "test_streamlit example_world_timeout initial_state =
     (Return False,
      emits initial_state
        [Subprocess (streamlit_command example_world_timeout) (Some 10),
         Print (cross_mark @ str '' Streamlit test error: '' @ exn_text ?e)])"
    by blast
  also have "\<dots> = (Return False,
      emits initial_state
        [Subprocess [str ''/usr/bin/python3'', str ''-m'', str ''streamlit'', str ''version''] (Some 10),
         Print (cross_mark @ str '' Streamlit test error: timed out after 10 seconds'')])"
    by (simp add: streamlit_command_def flip: str_append)
  finally show "test_streamlit example_world_timeout initial_state =
     (Return False,
      emits initial_state
        [Subprocess [str ''/usr/bin/python3'', str ''-m'', str ''streamlit'', str ''version''] (Some 10),
         Print (cross_mark @ str '' Streamlit test error: timed out after 10 seconds'')])" .
next
  have "spawn example_world_interrupted (streamlit_command example_world_interrupted) (Some 10)
          = Inl KeyboardInterrupt"
    by simp
  with test_streamlit_outcomes [of example_world_interrupted initial_state]
  have "test_streamlit example_world_interrupted initial_state =
     (Raise KeyboardInterrupt,
      emits initial_state [Subprocess (streamlit_command example_world_interrupted) (Some 10)])"
    by blast
  then show "test_streamlit example_world_interrupted initial_state =
     (Raise KeyboardInterrupt,
      emits initial_state
        [Subprocess [str ''/usr/bin/python3'', str ''-m'', str ''streamlit'', str ''version''] (Some 10)])"
    by (simp only: streamlit_command_def example_world_interrupted_fields)
qed

text \<open>
  C7 as the specification words it (the function never raises) fails when the launcher
  invocation is interrupted from the keyboard: \<open>test_streamlit\<close> raises
  \<open>KeyboardInterrupt\<close>, \<open>main\<close> raises it too, and the script ends with exit status 1.
\<close>

theorem test_streamlit_never_raises_counterexample:
  "fst (test_streamlit example_world_interrupted initial_state) = Raise KeyboardInterrupt
   \<and> fst (main example_world_interrupted initial_state) = Raise KeyboardInterrupt
   \<and> fst (script example_world_interrupted initial_state) = 1"
proof -
  let ?w = example_world_interrupted
  have normal: "\<forall>(p, i) \<in> set required_packages.
             import_module ?w i = None
             \<or> ((\<exists>m. import_module ?w i = Some (ImportError m))
                \<and> (\<exists>cp. spawn ?w (pip_command ?w p) None = Inr cp))"
    by simp
  have deps: "check_and_install_dependencies ?w (emits initial_state (map Print (opening_lines ?w)))
      = (Return (map (\<lambda>(p, i). (p, True)) required_packages),
         emits initial_state (map Print (opening_lines ?w) @ concat (map (package_events ?w) required_packages)))"
    using check_and_install_dependencies_normal [OF normal, of "emits initial_state (map Print (opening_lines ?w))"]
    by simp
  have v: "version_info ?w = (3, 11, 4)" by simp
  have none_failed: "\<forall>pkg \<in> set (failed_packages_of (map (\<lambda>(p, i). (p, True)) required_packages)).
                       encodable pkg"
    by (simp add: failed_packages_of_all_True)
  have m: "fst (main ?w initial_state) = Raise KeyboardInterrupt"
    by (simp only: main_compatible [OF v _ _ deps none_failed] remaining_stages_interrupted
        example_world_interrupted_fields)
  then have "fst (script ?w initial_state) = 1"
    by (cases "main ?w initial_state") (simp add: script_def)
  with m show ?thesis by (simp add: test_streamlit_apply)
qed


section \<open>The credential scanner\<close>

lemma for_each_emits:
  assumes "\<And>x s. x \<in> set xs \<Longrightarrow> body x s = (Return (), emits s (f x))"
  shows "for_each xs body s = (Return (), emits s (concat (map f xs)))"
  using assms
proof (induction xs arbitrary: s)
  case Nil
  show ?case by simp
next
  case (Cons x xs)
  have "body x s = (Return (), emits s (f x))" by (rule Cons.prems) simp
  moreover have "for_each xs body (emits s (f x)) = (Return (), emits (emits s (f x)) (concat (map f xs)))"
    by (rule Cons.IH) (simp add: Cons.prems)
  ultimately show ?case by (simp add: seq_Return [of "body x"])
qed


lemma encodable_description: "(n, d) \<in> set env_vars \<Longrightarrow> encodable d"
  by (auto simp: env_vars_def)

lemma encodable_take_8:
  "encodable (if 8 < length v then take 8 v @ str ''...'' else v) \<longleftrightarrow> encodable (take 8 v)"
  by simp

lemma check_environment_variable_apply:
  assumes "encodable description"
  shows "check_environment_variable w (var_name, description) s =
     (case getenv w var_name of
        Some v \<Rightarrow>
          if v \<noteq> [] \<and> \<not> encodable (take 8 v)
          then (Raise (UnicodeEncodeError
                        (encode_error_text w
                           (check_mark @ str '' '' @ description @ str '': ''
                            @ (if 8 < length v then take 8 v @ str ''...'' else v)))),
                emits s [Getenv var_name])
          else (Return (),
                emits s
                  [Getenv var_name,
                   Print (if v \<noteq> [] \<and> 8 < length v
                          then check_mark @ str '' '' @ description @ str '': '' @ take 8 v @ str ''...''
                          else if v \<noteq> []
                          then check_mark @ str '' '' @ description @ str '': '' @ v
                          else (if str_contains description (str ''(Optional)'')
                                then warning_sign else cross_mark)
                               @ str '' '' @ description @ str '': Not set'')])
      | None \<Rightarrow>
          (Return (),
           emits s
             [Getenv var_name,
              Print ((if str_contains description (str ''(Optional)'')
                      then warning_sign else cross_mark)
                     @ str '' '' @ description @ str '': Not set'')]))"
  using assms
  by (auto simp: check_environment_variable_def bind_def getenv_io_def emit_eq_emits Let_def
      print_def split: option.splits)

lemma check_environment_variables_apply:
  assumes "\<forall>(var_name, description) \<in> set env_vars.
             \<forall>v. getenv w var_name = Some v \<longrightarrow> encodable (take 8 v)"
  shows "check_environment_variables w s =
     (Return (),
      emits s (concat (map (\<lambda>(var_name, description).
        [Getenv var_name,
         Print (case getenv w var_name of
                  Some v \<Rightarrow>
                    if v \<noteq> [] \<and> 8 < length v
                    then check_mark @ str '' '' @ description @ str '': '' @ take 8 v @ str ''...''
                    else if v \<noteq> []
                    then check_mark @ str '' '' @ description @ str '': '' @ v
                    else (if str_contains description (str ''(Optional)'')
                          then warning_sign else cross_mark)
                         @ str '' '' @ description @ str '': Not set''
                | None \<Rightarrow>
                    (if str_contains description (str ''(Optional)'')
                     then warning_sign else cross_mark)
                    @ str '' '' @ description @ str '': Not set'')]) env_vars)))"
  unfolding check_environment_variables_def
proof (rule for_each_emits)
  fix x s
  assume mem: "x \<in> set env_vars"
  obtain n d where x: "x = (n, d)" by (cases x)
  from mem x have d: "encodable d" by (auto intro: encodable_description)
  from mem x assms have v: "\<forall>v. getenv w n = Some v \<longrightarrow> encodable (take 8 v)" by auto
  show "check_environment_variable w x s =
          (Return (),
           emits s (case x of (var_name, description) \<Rightarrow>
            [Getenv var_name,
             Print (case getenv w var_name of
                  Some v \<Rightarrow>
                    if v \<noteq> [] \<and> 8 < length v
                    then check_mark @ str '' '' @ description @ str '': '' @ take 8 v @ str ''...''
                    else if v \<noteq> []
                    then check_mark @ str '' '' @ description @ str '': '' @ v
                    else (if str_contains description (str ''(Optional)'')
                          then warning_sign else cross_mark)
                         @ str '' '' @ description @ str '': Not set''
                | None \<Rightarrow>
                    (if str_contains description (str ''(Optional)'')
                     then warning_sign else cross_mark)
                    @ str '' '' @ description @ str '': Not set'')]))"
    using v by (simp add: x check_environment_variable_apply [OF d] split: option.splits)
qed










lemma getenv_example_world_undecodable [simp]:
  "getenv example_world_undecodable name
     = (if name = str ''QDRANT_API_KEY'' then Some [0x61, 0xDCFF, 0x62]
        else getenv example_world name)"
  by (simp add: example_world_undecodable_def)




lemma count_Getenv:
  "length (filter (\<lambda>e. e = Getenv x) (concat (map (\<lambda>(n, d). [Getenv n, Print (g n d)]) vs)))
     = length (filter (\<lambda>(n, d). n = x) vs)"
  by (induction vs) auto

lemma env_var_read_once:
  "(n, d) \<in> set env_vars \<Longrightarrow> length (filter (\<lambda>(n', d'). n' = n) env_vars) = 1"
  by (auto simp: env_vars_def)

lemma check_environment_variable_unset_world:
  assumes "getenv w var_name = Some []"
  shows "check_environment_variable (w\<lparr>getenv := (getenv w)(var_name := None)\<rparr>) x
           = check_environment_variable w x"
proof (rule ext)
  fix s
  obtain n d where x: "x = (n, d)" by (cases x)
  show "check_environment_variable (w\<lparr>getenv := (getenv w)(var_name := None)\<rparr>) x s
           = check_environment_variable w x s"
    using assms
    by (cases "n = var_name")
      (simp_all add: x check_environment_variable_def bind_def getenv_io_def print_def Let_def)
qed

text \<open>
  C9. Let a variable of the list be set to the empty string. Then
  \<open>check_environment_variables\<close> gives the same result and the same trace as in the
  surroundings where that variable is unset. When the function returns (the first 8
  characters of every set value can be encoded), it reads that variable exactly once, and
  the line it prints right after reading it is the ``Not set'' line of its description, led
  by the warning sign when the description contains \<^verbatim>\<open>(Optional)\<close> and by the cross mark
  otherwise, not a masked preview.
\<close>

theorem empty_value_is_not_set:
  assumes "(var_name, description) \<in> set env_vars"
      and "getenv w var_name = Some []"
  shows "check_environment_variables w s
           = check_environment_variables (w\<lparr>getenv := (getenv w)(var_name := None)\<rparr>) s
     \<and> ((\<forall>(n, d) \<in> set env_vars. \<forall>v. getenv w n = Some v \<longrightarrow> encodable (take 8 v)) \<longrightarrow>
          fst (check_environment_variables w s) = Return ()
          \<and> (\<exists>before after.
                drop (length (trace s)) (trace (snd (check_environment_variables w s)))
                  = before
                    @ [Getenv var_name,
                       Print ((if str_contains description (str ''(Optional)'')
                               then warning_sign else cross_mark)
                              @ str '' '' @ description @ str '': Not set'')]
                    @ after)
          \<and> length (filter (\<lambda>e. e = Getenv var_name)
                      (drop (length (trace s)) (trace (snd (check_environment_variables w s))))) = 1)"
proof (intro conjI impI)
  let ?w = "w\<lparr>getenv := (getenv w)(var_name := None)\<rparr>"
  have "check_environment_variable ?w = check_environment_variable w"
    by (rule ext) (rule check_environment_variable_unset_world [OF assms(2)])
  then show "check_environment_variables w s = check_environment_variables ?w s"
    by (simp only: check_environment_variables_def)
next
  let ?line = "\<lambda>var_name description.
         (case getenv w var_name of
                  Some v \<Rightarrow>
                    if v \<noteq> [] \<and> 8 < length v
                    then check_mark @ str '' '' @ description @ str '': '' @ take 8 v @ str ''...''
                    else if v \<noteq> []
                    then check_mark @ str '' '' @ description @ str '': '' @ v
                    else (if str_contains description (str ''(Optional)'')
                          then warning_sign else cross_mark)
                         @ str '' '' @ description @ str '': Not set''
                | None \<Rightarrow>
                    (if str_contains description (str ''(Optional)'')
                     then warning_sign else cross_mark)
                    @ str '' '' @ description @ str '': Not set'')"
  let ?f = "\<lambda>(var_name, description). [Getenv var_name, Print (?line var_name description)]"
  assume enc: "\<forall>(n, d) \<in> set env_vars. \<forall>v. getenv w n = Some v \<longrightarrow> encodable (take 8 v)"
  have run: "check_environment_variables w s = (Return (), emits s (concat (map ?f env_vars)))"
    by (rule check_environment_variables_apply [OF enc])
  then show "fst (check_environment_variables w s) = Return ()" by simp
  from run have new: "drop (length (trace s)) (trace (snd (check_environment_variables w s)))
                        = concat (map ?f env_vars)"
    by simp
  from assms(1) obtain xs ys where split: "env_vars = xs @ (var_name, description) # ys"
    by (auto dest: split_list)
  have here: "?f (var_name, description)
                = [Getenv var_name,
                   Print ((if str_contains description (str ''(Optional)'')
                           then warning_sign else cross_mark)
                          @ str '' '' @ description @ str '': Not set'')]"
    by (simp add: assms(2))
  have "concat (map ?f env_vars)
          = concat (map ?f xs) @ ?f (var_name, description) @ concat (map ?f ys)"
    by (simp only: split map_append list.map concat_append concat.simps)
  then have parts: "drop (length (trace s)) (trace (snd (check_environment_variables w s)))
          = concat (map ?f xs)
            @ [Getenv var_name,
               Print ((if str_contains description (str ''(Optional)'')
                       then warning_sign else cross_mark)
                      @ str '' '' @ description @ str '': Not set'')]
            @ concat (map ?f ys)"
    by (simp only: new here)
  show "\<exists>before after.
          drop (length (trace s)) (trace (snd (check_environment_variables w s)))
            = before
              @ [Getenv var_name,
                 Print ((if str_contains description (str ''(Optional)'')
                         then warning_sign else cross_mark)
                        @ str '' '' @ description @ str '': Not set'')]
              @ after"
    by (rule exI [of _ "concat (map ?f xs)"], rule exI [of _ "concat (map ?f ys)"]) (rule parts)
  have "length (filter (\<lambda>e. e = Getenv var_name) (concat (map ?f env_vars)))
          = length (filter (\<lambda>(n', d'). n' = var_name) env_vars)"
    by (rule count_Getenv)
  also have "\<dots> = 1" by (rule env_var_read_once [OF assms(1)])
  finally show "length (filter (\<lambda>e. e = Getenv var_name)
                 (drop (length (trace s)) (trace (snd (check_environment_variables w s))))) = 1"
    by (simp only: new)
qed

theorem empty_value_is_not_set_witness:
  "check_environment_variables
       (example_world\<lparr>getenv := (getenv example_world)(str ''QDRANT_URL'' \<mapsto> [])\<rparr>) initial_state
     = check_environment_variables
         (example_world\<lparr>getenv := (getenv example_world)(str ''QDRANT_URL'' \<mapsto> [])\<rparr>
            \<lparr>getenv := (getenv (example_world\<lparr>getenv := (getenv example_world)(str ''QDRANT_URL'' \<mapsto> [])\<rparr>))
                         (str ''QDRANT_URL'' := None)\<rparr>) initial_state
   \<and> fst (check_environment_variables
            (example_world\<lparr>getenv := (getenv example_world)(str ''QDRANT_URL'' \<mapsto> [])\<rparr>)
            initial_state) = Return ()
   \<and> (\<exists>before after.
         drop (length (trace initial_state))
           (trace (snd (check_environment_variables
              (example_world\<lparr>getenv := (getenv example_world)(str ''QDRANT_URL'' \<mapsto> [])\<rparr>)
              initial_state)))
           = before
             @ [Getenv (str ''QDRANT_URL''),
                Print ((if str_contains (str ''Qdrant URL'') (str ''(Optional)'')
                        then warning_sign else cross_mark)
                       @ str '' '' @ str ''Qdrant URL'' @ str '': Not set'')]
             @ after)
   \<and> length (filter (\<lambda>e. e = Getenv (str ''QDRANT_URL''))
        (drop (length (trace initial_state))
           (trace (snd (check_environment_variables
              (example_world\<lparr>getenv := (getenv example_world)(str ''QDRANT_URL'' \<mapsto> [])\<rparr>)
              initial_state))))) = 1"
proof -
  let ?w = "example_world\<lparr>getenv := (getenv example_world)(str ''QDRANT_URL'' \<mapsto> [])\<rparr>"
  have mem: "(str ''QDRANT_URL'', str ''Qdrant URL'') \<in> set env_vars"
    by (simp add: env_vars_def)
  have empty: "getenv ?w (str ''QDRANT_URL'') = Some []" by simp
  have enc: "\<forall>(n, d) \<in> set env_vars. \<forall>v. getenv ?w n = Some v \<longrightarrow> encodable (take 8 v)"
    by (simp add: env_vars_def)
  from empty_value_is_not_set [OF mem empty, of initial_state] enc
  show ?thesis by blast
qed


section \<open>The template writer\<close>

lemma create_env_template_apply:
  "create_env_template w s =
     (case open_w w env_template_path of
        Some e \<Rightarrow>
          if is_Exception e
          then (Return False,
                emits s [OpenW env_template_path,
                         Print (cross_mark @ str '' Failed to create .env.template: '' @ exn_text e)])
          else (Raise e, emits s [OpenW env_template_path])
      | None \<Rightarrow>
          (case write_text w env_template_path env_template of
             Some (e, n) \<Rightarrow>
               if is_Exception e
               then (Return False,
                     (emits s [OpenW env_template_path, WriteText env_template_path env_template,
                               Print (cross_mark @ str '' Failed to create .env.template: ''
                                      @ exn_text e)])
                       \<lparr>files := (files s)(env_template_path \<mapsto> take n env_template)\<rparr>)
               else (Raise e,
                     (emits s [OpenW env_template_path, WriteText env_template_path env_template])
                       \<lparr>files := (files s)(env_template_path \<mapsto> take n env_template)\<rparr>)
           | None \<Rightarrow>
               (Return True,
                (emits s [OpenW env_template_path, WriteText env_template_path env_template,
                          Print (check_mark @ str '' Created .env.template file''),
                          Print (str ''   Copy this to .env and fill in your API keys'')])
                  \<lparr>files := (files s)(env_template_path \<mapsto> env_template)\<rparr>)))"
  by (simp add: create_env_template_def try_except_def seq_def bind_def write_file_def
      emit_def emits_def split: option.splits)

lemma env_template_groups:
  "map (filter is_assignment) (paragraphs env_template_lines)
     = [[],
        [''GOOGLE_API_KEY=your_google_api_key_here''],
        [''QDRANT_API_KEY=your_qdrant_api_key_here'',
         ''QDRANT_URL=https://your-cluster.cloud.qdrant.io:6333''],
        [''EXA_API_KEY=your_exa_api_key_here'']]"
  "map (filter is_provisioning_comment) (paragraphs env_template_lines)
     = [[],
        [''# Get from: https://aistudio.google.com/''],
        [''# Get from: https://cloud.qdrant.io/''],
        [''# Get from: https://exa.ai/'']]"
  by (simp_all add: env_template_lines_def is_assignment_def is_provisioning_comment_def)

text \<open>
  C8. \<open>create_env_template\<close> opens the fixed path \<^verbatim>\<open>.env.template\<close> for writing and writes
  the fixed text \<open>env_template\<close>, the same in every run. When both steps work, it returns
  \<open>True\<close> and the file holds exactly \<open>env_template\<close>, whatever it held before, so a second
  successful run leaves the same content. When opening or writing raises an exception that
  derives from \<^verbatim>\<open>Exception\<close>, it prints the failure line with the exception text and
  returns \<open>False\<close>; in all these cases whatever follows runs next. The text has, after its
  heading, three groups of lines, each with one provisioning comment: the first assigns
  \<^verbatim>\<open>GOOGLE_API_KEY\<close>, the second \<^verbatim>\<open>QDRANT_API_KEY\<close> and \<^verbatim>\<open>QDRANT_URL\<close>, the third
  \<^verbatim>\<open>EXA_API_KEY\<close>.
\<close>

theorem create_env_template_outcomes:
  "(open_w w env_template_path = None \<and> write_text w env_template_path env_template = None \<longrightarrow>
      create_env_template w s =
        (Return True,
         (emits s [OpenW env_template_path, WriteText env_template_path env_template,
                   Print (check_mark @ str '' Created .env.template file''),
                   Print (str ''   Copy this to .env and fill in your API keys'')])
           \<lparr>files := (files s)(env_template_path \<mapsto> env_template)\<rparr>)
      \<and> (\<forall>w'. open_w w' env_template_path = None
                \<and> write_text w' env_template_path env_template = None \<longrightarrow>
             files (snd (create_env_template w' (snd (create_env_template w s)))) env_template_path
               = files (snd (create_env_template w s)) env_template_path))
   \<and> (\<forall>e. open_w w env_template_path = Some e \<and> is_Exception e \<longrightarrow>
      create_env_template w s =
        (Return False,
         emits s [OpenW env_template_path,
                  Print (cross_mark @ str '' Failed to create .env.template: '' @ exn_text e)]))
   \<and> (\<forall>e n. open_w w env_template_path = None
            \<and> write_text w env_template_path env_template = Some (e, n) \<and> is_Exception e \<longrightarrow>
      create_env_template w s =
        (Return False,
         (emits s [OpenW env_template_path, WriteText env_template_path env_template,
                   Print (cross_mark @ str '' Failed to create .env.template: '' @ exn_text e)])
           \<lparr>files := (files s)(env_template_path \<mapsto> take n env_template)\<rparr>))
   \<and> ((\<exists>b. fst (create_env_template w s) = Return b) \<longrightarrow>
        (\<forall>k. seq (create_env_template w) k s = k (snd (create_env_template w s))))
   \<and> env_template_path = str ''.env.template''
   \<and> env_template = concat (map (\<lambda>l. str l @ newline) env_template_lines)
   \<and> map (filter is_assignment) (paragraphs env_template_lines)
       = [[],
          [''GOOGLE_API_KEY=your_google_api_key_here''],
          [''QDRANT_API_KEY=your_qdrant_api_key_here'',
           ''QDRANT_URL=https://your-cluster.cloud.qdrant.io:6333''],
          [''EXA_API_KEY=your_exa_api_key_here'']]
   \<and> map (filter is_provisioning_comment) (paragraphs env_template_lines)
       = [[],
          [''# Get from: https://aistudio.google.com/''],
          [''# Get from: https://cloud.qdrant.io/''],
          [''# Get from: https://exa.ai/'']]"
proof (intro conjI allI impI)
  assume "\<exists>b. fst (create_env_template w s) = Return b"
  then obtain b s' where ret: "create_env_template w s = (Return b, s')"
    by (cases "create_env_template w s") auto
  fix k :: "'a io"
  from ret show "seq (create_env_template w) k s = k (snd (create_env_template w s))"
    by (simp add: seq_def bind_def)
qed (simp_all add: create_env_template_apply env_template_groups env_template_path_def
      env_template_def)

theorem create_env_template_outcomes_witness:
  "create_env_template example_world
       (initial_state\<lparr>files := [env_template_path \<mapsto> str ''OLD=1'']\<rparr>) =
     (Return True,
      (emits (initial_state\<lparr>files := [env_template_path \<mapsto> str ''OLD=1'']\<rparr>)
         [OpenW env_template_path, WriteText env_template_path env_template,
          Print (check_mark @ str '' Created .env.template file''),
          Print (str ''   Copy this to .env and fill in your API keys'')])
        \<lparr>files := [env_template_path \<mapsto> env_template]\<rparr>)
   \<and> create_env_template example_world_read_only initial_state =
     (Return False,
      emits initial_state
        [OpenW env_template_path,
         Print (cross_mark @ str '' Failed to create .env.template: Permission denied'')])
   \<and> create_env_template example_world_disk_full initial_state =
     (Return False,
      (emits initial_state
         [OpenW env_template_path, WriteText env_template_path env_template,
          Print (cross_mark @ str '' Failed to create .env.template: No space left on device'')])
        \<lparr>files := [env_template_path \<mapsto> take 40 env_template]\<rparr>)"
proof (intro conjI)
  let ?s = "initial_state\<lparr>files := [env_template_path \<mapsto> str ''OLD=1'']\<rparr>"
  have "open_w example_world env_template_path = None
        \<and> write_text example_world env_template_path env_template = None"
    by simp
  with create_env_template_outcomes [of example_world ?s]
  have "create_env_template example_world ?s =
        (Return True,
         (emits ?s [OpenW env_template_path, WriteText env_template_path env_template,
                   Print (check_mark @ str '' Created .env.template file''),
                   Print (str ''   Copy this to .env and fill in your API keys'')])
           \<lparr>files := (files ?s)(env_template_path \<mapsto> env_template)\<rparr>)"
    by blast
  then show "create_env_template example_world ?s =
     (Return True,
      (emits ?s
         [OpenW env_template_path, WriteText env_template_path env_template,
          Print (check_mark @ str '' Created .env.template file''),
          Print (str ''   Copy this to .env and fill in your API keys'')])
        \<lparr>files := [env_template_path \<mapsto> env_template]\<rparr>)"
    by simp
next
  let ?e = "OSError (text_of ''Permission denied'')"
  have "open_w example_world_read_only env_template_path = Some ?e \<and> is_Exception ?e"
    by simp
  with create_env_template_outcomes [of example_world_read_only initial_state]
  have "create_env_template example_world_read_only initial_state =
        (Return False,
         emits initial_state [OpenW env_template_path,
                  Print (cross_mark @ str '' Failed to create .env.template: '' @ exn_text ?e)])"
    by blast
  also have "\<dots> = (Return False,
      emits initial_state
        [OpenW env_template_path,
         Print (cross_mark @ str '' Failed to create .env.template: Permission denied'')])"
    by (simp flip: str_append)
  finally show "create_env_template example_world_read_only initial_state =
     (Return False,
      emits initial_state
        [OpenW env_template_path,
         Print (cross_mark @ str '' Failed to create .env.template: Permission denied'')])" .
next
  let ?e = "OSError (text_of ''No space left on device'')"
  have "open_w example_world_disk_full env_template_path = None
        \<and> write_text example_world_disk_full env_template_path env_template = Some (?e, 40)
        \<and> is_Exception ?e"
    by simp
  with create_env_template_outcomes [of example_world_disk_full initial_state]
  have "create_env_template example_world_disk_full initial_state =
        (Return False,
         (emits initial_state [OpenW env_template_path, WriteText env_template_path env_template,
                   Print (cross_mark @ str '' Failed to create .env.template: '' @ exn_text ?e)])
           \<lparr>files := (files initial_state)(env_template_path \<mapsto> take 40 env_template)\<rparr>)"
    by blast
  also have "\<dots> = (Return False,
      (emits initial_state
         [OpenW env_template_path, WriteText env_template_path env_template,
          Print (cross_mark @ str '' Failed to create .env.template: No space left on device'')])
        \<lparr>files := [env_template_path \<mapsto> take 40 env_template]\<rparr>)"
    by (simp flip: str_append)
  finally show "create_env_template example_world_disk_full initial_state =
     (Return False,
      (emits initial_state
         [OpenW env_template_path, WriteText env_template_path env_template,
          Print (cross_mark @ str '' Failed to create .env.template: No space left on device'')])
        \<lparr>files := [env_template_path \<mapsto> take 40 env_template]\<rparr>)" .
qed

end
